theory Spec2Isabelle
  imports Complex_Main "HOL-Library.Sublist"
begin

section \<open>Conventions\<close>

text \<open>
  The development embeds the evaluation pipeline of playwright-vibe-check.
  JavaScript strings are \<^typ>\<open>string\<close>, one character for one code unit (the texts
  of the examples are ASCII). JavaScript numbers are \<^typ>\<open>real\<close> (exact arithmetic;
  \<open>NaN\<close> and the infinities are outside the model), counters are \<^typ>\<open>nat\<close> or
  \<^typ>\<open>int\<close>. An optional property is an \<^typ>\<open>'a option\<close>, \<open>None\<close> standing for
  \<open>undefined\<close>. A \<open>throw\<close> is the \<open>Inl\<close> branch of a sum.
\<close>

section \<open>File-system utilities (src/utils/fs-utils.ts)\<close>

definition isAlnum :: "char \<Rightarrow> bool" where
  "isAlnum c =
     (let n = (of_char c :: nat)
      in (48 \<le> n \<and> n \<le> 57) \<or> (65 \<le> n \<and> n \<le> 90) \<or> (97 \<le> n \<and> n \<le> 122))"

definition isDigit :: "char \<Rightarrow> bool" where
  "isDigit c = (let n = (of_char c :: nat) in 48 \<le> n \<and> n \<le> 57)"

text \<open>\<^verbatim>\<open>.replace(/[^a-zA-Z0-9]/g, "-")\<close>\<close>

definition replaceNonAlnum :: "string \<Rightarrow> string" where
  "replaceNonAlnum s = map (\<lambda>c. if isAlnum c then c else CHR ''-'') s"

text \<open>\<^verbatim>\<open>.replace(/-+/g, "-")\<close>: every maximal run of hyphens becomes one hyphen.\<close>

fun collapseHyphens :: "string \<Rightarrow> string" where
  "collapseHyphens (a # b # cs) =
     (if a = CHR ''-'' \<and> b = CHR ''-'' then collapseHyphens (b # cs)
      else a # collapseHyphens (b # cs))"
| "collapseHyphens cs = cs"

text \<open>The decimal text of a non-negative integer, as a template literal prints it.\<close>

definition digitChar :: "nat \<Rightarrow> char" where
  "digitChar d = char_of (48 + d)"

fun showNat :: "nat \<Rightarrow> string" where
  "showNat n = (if n < 10 then [digitChar n] else showNat (n div 10) @ [digitChar (n mod 10)])"

declare showNat.simps [simp del]

text \<open>
  \<open>generateScreenshotName\<close>; the first argument is the value of \<^verbatim>\<open>Date.now()\<close>.
  \<^verbatim>\<open>if (customName)\<close> is false for \<open>undefined\<close> and for the empty string.
\<close>

definition generateScreenshotName :: "nat \<Rightarrow> string \<Rightarrow> string option \<Rightarrow> string" where
  "generateScreenshotName timestamp testTitle customName =
     (let sanitizedTitle = take 50 (collapseHyphens (replaceNonAlnum testTitle))
      in case customName of
           Some c \<Rightarrow>
             if c \<noteq> [] then
               (let sanitizedCustom = collapseHyphens (replaceNonAlnum c)
                in sanitizedTitle @ ''-'' @ sanitizedCustom @ ''-'' @ showNat timestamp)
             else sanitizedTitle @ ''-'' @ showNat timestamp
         | None \<Rightarrow> sanitizedTitle @ ''-'' @ showNat timestamp)"

text \<open>The regular expression \<^verbatim>\<open>^should-verify-btn-\d+$\<close> as a predicate.\<close>

definition matchesLowerPattern :: "string \<Rightarrow> bool" where
  "matchesLowerPattern s =
     (take 18 s = ''should-verify-btn-'' \<and> drop 18 s \<noteq> [] \<and> list_all isDigit (drop 18 s))"

text \<open>The regular expression \<^verbatim>\<open>^Should-Verify--btn-\d+$\<close> as a predicate.\<close>

definition matchesExactPattern :: "string \<Rightarrow> bool" where
  "matchesExactPattern s =
     (take 19 s = ''Should-Verify--btn-'' \<and> drop 19 s \<noteq> [] \<and> list_all isDigit (drop 19 s))"

section \<open>Provider configuration (src/types/llm.ts, src/providers/base-provider.ts)\<close>

record LLMProviderConfig =
  apiKey :: "string option"
  apiKeyEnvVar :: "string option"
  defaultConfidenceThreshold :: "real option"
  defaultMaxRetries :: "int option"
  model :: "string option"
  maxTokens :: "int option"
  temperature :: "real option"

text \<open>\<^verbatim>\<open>process.env\<close>: a finite map from variable names to their values.\<close>

type_synonym environment = "string \<rightharpoonup> string"

text \<open>\<^verbatim>\<open>s || d\<close> on an optional string: \<open>undefined\<close> and \<open>""\<close> are falsy.\<close>

definition orString :: "string option \<Rightarrow> string \<Rightarrow> string" where
  "orString v d = (case v of Some s \<Rightarrow> if s \<noteq> [] then s else d | None \<Rightarrow> d)"

definition truthyString :: "string option \<Rightarrow> bool" where
  "truthyString v = (case v of Some s \<Rightarrow> s \<noteq> [] | None \<Rightarrow> False)"

text \<open>\<^verbatim>\<open>x || d\<close> on an optional number: \<open>undefined\<close> and \<open>0\<close> are falsy.\<close>

definition orNumber :: "'a::zero option \<Rightarrow> 'a \<Rightarrow> 'a" where
  "orNumber v d = (case v of Some x \<Rightarrow> if x \<noteq> 0 then x else d | None \<Rightarrow> d)"

text \<open>
  \<open>BaseLLMProvider.validateConfig\<close>. The warning written to the console when no key
  is found has no effect on the result and is left out.
\<close>

definition validateConfig :: "environment \<Rightarrow> LLMProviderConfig \<Rightarrow> LLMProviderConfig" where
  "validateConfig env config =
     (let c1 = (if truthyString (apiKey config) then config
                else (case apiKeyEnvVar config of
                        Some var \<Rightarrow>
                          if var \<noteq> [] then config\<lparr>apiKey := Some (orString (env var) [])\<rparr>
                          else config
                      | None \<Rightarrow> config))
      in c1\<lparr>defaultConfidenceThreshold := Some (orNumber (defaultConfidenceThreshold c1) 0.8),
            defaultMaxRetries := Some (orNumber (defaultMaxRetries c1) 3),
            temperature := Some (orNumber (temperature c1) 0.3)\<rparr>)"

section \<open>Errors\<close>

text \<open>
  Every failure of the program is a thrown \<^verbatim>\<open>Error\<close> carrying a message. \<open>TypeError\<close>
  is what the language raises itself (the \<^verbatim>\<open>in\<close> operator on a primitive), and
  \<open>HostError\<close> is a rejection coming from the platform: the file system, \<^verbatim>\<open>fetch\<close>,
  \<^verbatim>\<open>response.json()\<close>, the screenshot capture.
\<close>

datatype error = Error string | TypeError string | HostError string

fun message :: "error \<Rightarrow> string" where
  "message (Error m) = m"
| "message (TypeError m) = m"
| "message (HostError m) = m"

definition isOk :: "'e + 'a \<Rightarrow> bool" where
  "isOk r = (case r of Inl _ \<Rightarrow> False | Inr _ \<Rightarrow> True)"

section \<open>The provider registry (src/providers/index.ts, class LLMService)\<close>

text \<open>
  The \<^verbatim>\<open>Map\<close> of providers is an association list in insertion order; \<open>mapSet\<close> is
  \<^verbatim>\<open>Map.prototype.set\<close> (an existing key keeps its place and gets the new value),
  \<open>map_of\<close> is \<^verbatim>\<open>Map.prototype.get\<close>, and the size is the number of distinct keys.
  \<open>defaultProviderName\<close> is \<open>None\<close> for \<^verbatim>\<open>null\<close>.
\<close>

fun mapSet :: "'k \<Rightarrow> 'v \<Rightarrow> ('k \<times> 'v) list \<Rightarrow> ('k \<times> 'v) list" where
  "mapSet k v [] = [(k, v)]"
| "mapSet k v ((a, b) # ps) = (if k = a then (k, v) # ps else (a, b) # mapSet k v ps)"

definition mapSize :: "('k \<times> 'v) list \<Rightarrow> nat" where
  "mapSize ps = length (remdups (map fst ps))"

record 'p LLMService =
  providers :: "(string \<times> 'p) list"
  defaultProviderName :: "string option"

definition newLLMService :: "'p LLMService" where
  "newLLMService = \<lparr>providers = [], defaultProviderName = None\<rparr>"

definition registerProvider :: "string \<Rightarrow> 'p \<Rightarrow> bool \<Rightarrow> 'p LLMService \<Rightarrow> 'p LLMService" where
  "registerProvider name provider isDefault s =
     (let s1 = s\<lparr>providers := mapSet name provider (providers s)\<rparr>
      in if isDefault \<or> mapSize (providers s1) = 1
         then s1\<lparr>defaultProviderName := Some name\<rparr>
         else s1)"

definition setDefaultProvider :: "string \<Rightarrow> 'p LLMService \<Rightarrow> error + 'p LLMService" where
  "setDefaultProvider name s =
     (if map_of (providers s) name = None
      then Inl (Error (''Provider \"'' @ name @ ''\" not registered''))
      else Inr (s\<lparr>defaultProviderName := Some name\<rparr>))"

text \<open>
  \<open>getProvider\<close>: in \<^verbatim>\<open>name || this.defaultProviderName\<close> an absent and an empty
  name both give way to the default.
\<close>

definition getProvider :: "string option \<Rightarrow> 'p LLMService \<Rightarrow> error + 'p" where
  "getProvider name s =
     (let providerName = (if truthyString name then name else defaultProviderName s)
      in case providerName of
           None \<Rightarrow> Inl (Error ''No provider specified and no default provider set'')
         | Some n \<Rightarrow>
             if n = [] then Inl (Error ''No provider specified and no default provider set'')
             else (case map_of (providers s) n of
                     None \<Rightarrow> Inl (Error (''Provider \"'' @ n @ ''\" not found''))
                   | Some p \<Rightarrow> Inr p))"

text \<open>The registries that a program can build: registrations and successful \<open>setDefaultProvider\<close> calls.\<close>

inductive reachable :: "'p LLMService \<Rightarrow> bool" where
  fresh: "reachable newLLMService"
| registered: "reachable s \<Longrightarrow> reachable (registerProvider name provider isDefault s)"
| defaulted: "reachable s \<Longrightarrow> setDefaultProvider name s = Inr s' \<Longrightarrow> reachable s'"

text \<open>
  In a reachable registry the default, once there are providers, names one of them;
  with no providers there is no default.
\<close>

definition defaultKnown :: "'p LLMService \<Rightarrow> bool" where
  "defaultKnown s =
     (case defaultProviderName s of
        None \<Rightarrow> providers s = []
      | Some d \<Rightarrow> d \<in> fst ` set (providers s))"

section \<open>Sample data\<close>

text \<open>
  The registry holding the provider 1 under "a": the name "x" is not registered in it,
  registering "x" resolves to the new provider and keeps "a" as the default, and
  setDefaultProvider "a" succeeds.
\<close>

definition sampleService :: "nat LLMService" where
  "sampleService = registerProvider ''a'' 1 False newLLMService"

section \<open>JSON values and the host platform\<close>

datatype json =
    JNull
  | JBool bool
  | JNumber real
  | JString string
  | JArray "json list"
  | JObject "(string \<times> json) list"

text \<open>
  The built-in functions of the platform that the program calls are parameters of the
  model: \<open>JSON_parse\<close> (\<open>None\<close> when it throws a SyntaxError), \<open>JSON_stringify\<close>,
  \<open>Number_toString\<close> (used by \<^verbatim>\<open>toFixed\<close> from \<open>10^21\<close> on) and \<^verbatim>\<open>path.join\<close>.
\<close>

record host =
  JSON_parse :: "string \<Rightarrow> json option"
  JSON_stringify :: "json \<Rightarrow> string"
  Number_toString :: "real \<Rightarrow> string"
  path_join :: "string \<Rightarrow> string \<Rightarrow> string"

text \<open>
  \<^verbatim>\<open>Number.prototype.toFixed(f)\<close> as ECMA-262 defines it on a finite number: the sign,
  then the digits of the integer \<open>n\<close> nearest to \<open>x * 10^f\<close> (the larger one on a tie),
  padded to \<open>f + 1\<close> digits, with the point before the last \<open>f\<close> digits.
\<close>

definition toFixed :: "host \<Rightarrow> nat \<Rightarrow> real \<Rightarrow> string" where
  "toFixed h f x =
     (let s = (if x < 0 then ''-'' else '''');
          x = (if x < 0 then - x else x)
      in if x \<ge> 10 ^ 21 then s @ Number_toString h x
         else
           (let n = nat \<lfloor>x * 10 ^ f + 1 / 2\<rfloor>;
                m = showNat n;
                m = (if f \<noteq> 0 \<and> length m \<le> f
                     then replicate (f + 1 - length m) CHR ''0'' @ m else m);
                k = length m
            in if f \<noteq> 0 then s @ take (k - f) m @ ''.'' @ drop (k - f) m else s @ m))"

text \<open>\<^verbatim>\<open>Array.prototype.join\<close>\<close>

fun joinWith :: "'a list \<Rightarrow> 'a list list \<Rightarrow> 'a list" where
  "joinWith sep [] = []"
| "joinWith sep [x] = x"
| "joinWith sep (x # y # ys) = x @ sep @ joinWith sep (y # ys)"

section \<open>The check (src/playwright/fixtures.ts)\<close>

text \<open>The interface \<open>LLMResponse\<close> of src/types/llm.ts, with the types it declares.\<close>

record LLMResponse =
  verdict :: string
  confidence :: real
  failReason :: "string option"
  reasoning :: "string option"
  suggestions :: "string list option"
  rawResponse :: "json option"

record VibeCheckResult = LLMResponse +
  screenshotPath :: string

text \<open>\<open>buildFailureMessage\<close>; \<^verbatim>\<open>if (result.reasoning)\<close> is false for the empty string.\<close>

definition buildFailureMessage ::
  "host \<Rightarrow> string \<Rightarrow> LLMResponse \<Rightarrow> real \<Rightarrow> string \<Rightarrow> string" where
  "buildFailureMessage h specification result threshold path =
     (let lines0 =
            [''Vibe check failed!'',
             '''',
             ''Specification: \"'' @ specification @ ''\"'',
             '''',
             ''Verdict: '' @ verdict result,
             ''Confidence: '' @ toFixed h 1 (confidence result * 100) @ ''% (threshold: ''
               @ toFixed h 1 (threshold * 100) @ ''%)''];
          lines1 = (case reasoning result of
                      Some r \<Rightarrow> if r \<noteq> [] then lines0 @ ['''', ''Reasoning: '' @ r] else lines0
                    | None \<Rightarrow> lines0);
          lines2 = (case failReason result of
                      Some r \<Rightarrow> if r \<noteq> [] then lines1 @ ['''', ''Fail Reason: '' @ r] else lines1
                    | None \<Rightarrow> lines1);
          lines3 = (case suggestions result of
                      Some ss \<Rightarrow>
                        if length ss > 0
                        then lines2 @ ['''', ''Suggestions:''] @ map (\<lambda>s. ''  - '' @ s) ss
                        else lines2
                    | None \<Rightarrow> lines2);
          lines4 = lines3 @ ['''', ''Screenshot: '' @ path]
      in joinWith [CHR 0x0A] lines4)"

text \<open>
  The last step of \<open>vibeCheck\<close> (``Assert based on confidence threshold''): the check
  throws the failure message, or returns the result with the screenshot path added.
\<close>

definition assertThreshold ::
  "host \<Rightarrow> string \<Rightarrow> LLMResponse \<Rightarrow> real \<Rightarrow> string \<Rightarrow> error + VibeCheckResult" where
  "assertThreshold h specification result threshold path =
     (if verdict result = ''no'' \<or> confidence result < threshold
      then Inl (Error (buildFailureMessage h specification result threshold path))
      else Inr (LLMResponse.extend result (VibeCheckResult.fields path)))"

text \<open>
  A printed number with exactly one decimal place: an optional minus sign, one or more
  digits, a point, one digit.
\<close>

definition oneDecimal :: "string \<Rightarrow> bool" where
  "oneDecimal s =
     (let r = (case s of c # cs \<Rightarrow> if c = CHR ''-'' then cs else s | [] \<Rightarrow> s);
          n = length r
      in n \<ge> 3 \<and> list_all isDigit (take (n - 2) r) \<and> r ! (n - 2) = CHR ''.''
         \<and> isDigit (r ! (n - 1)))"

text \<open>
  A host for the concrete examples. Its functions agree with the platform on the
  arguments that the examples evaluate: \<open>JSON_parse\<close> is a table of four reply texts
  and throws on every other text that the examples give it (none of which is JSON);
  \<open>JSON_stringify\<close> is evaluated on the array \<open>[1,2]\<close> only; \<open>Number_toString\<close> is
  never reached, and only plain path segments are joined.
\<close>

definition sampleHost :: host where
  "sampleHost =
     \<lparr>JSON_parse = map_of
        [(''42'', JNumber 42),
         (''[1, 2]'', JArray [JNumber 1, JNumber 2]),
         (''{\"confidence\":0.9,\"verdict\":\"maybe\"}'',
            JObject [(''confidence'', JNumber 0.9), (''verdict'', JString ''maybe'')]),
         (''{\"confidence\":1.5,\"verdict\":\"yes\"}'',
            JObject [(''confidence'', JNumber 1.5), (''verdict'', JString ''yes'')])],
      JSON_stringify = (\<lambda>j. if j = JArray [JNumber 1, JNumber 2] then ''[1,2]'' else []),
      Number_toString = (\<lambda>x. []),
      path_join = (\<lambda>a b. a @ ''/'' @ b)\<rparr>"

text \<open>A judge that says "yes" with confidence 0.7.\<close>

definition hesitantYes :: LLMResponse where
  "hesitantYes =
     \<lparr>verdict = ''yes'', confidence = 0.7, failReason = None,
      reasoning = Some ''Moderate match'', suggestions = None, rawResponse = None\<rparr>"

section \<open>Evaluation options (src/types/llm.ts, src/config/config.ts)\<close>

text \<open>
  A property of an options object that is spread into another object: the key is absent,
  or present with the value \<open>undefined\<close>, or present with a value.
\<close>

datatype 'a property = Absent | Undefined | Value 'a

record EvaluateOptions =
  confidenceThreshold :: "real property"
  modelParameters :: "(string \<times> json) list property"
  includeRawResponse :: "bool property"
  maxRetries :: "int property"

text \<open>
  \<open>VibeCheckOptions\<close>, the options of one check, and the \<open>evaluation\<close> part of
  \<open>VibeConfig\<close>, the configuration of the session. Their fields carry a prefix where the
  source uses the names of \<open>EvaluateOptions\<close> again. The \<open>providers\<close> part of
  \<open>VibeConfig\<close> serves to build the registry and is not read by a check.
\<close>

record VibeCheckOptions =
  name :: "string option"
  provider :: "string option"
  check_confidenceThreshold :: "real option"
  check_includeRawResponse :: "bool option"
  check_maxRetries :: "int option"
  check_modelParameters :: "(string \<times> json) list option"

record Evaluation =
  session_confidenceThreshold :: real
  session_includeRawResponse :: bool
  session_maxRetries :: int
  session_modelParameters :: "(string \<times> json) list"

record VibeConfig =
  defaultProvider :: string
  evaluation :: Evaluation

text \<open>\<^verbatim>\<open>{...a, ...b}\<close> on objects as association lists: the properties of \<open>b\<close> are set in turn.\<close>

definition spread :: "('k \<times> 'v) list \<Rightarrow> ('k \<times> 'v) list \<Rightarrow> ('k \<times> 'v) list" where
  "spread a b = foldl (\<lambda>acc (k, v). mapSet k v acc) a b"

text \<open>\<^verbatim>\<open>options?.field ?? fallback\<close>\<close>

definition nullish :: "'o option \<Rightarrow> ('o \<Rightarrow> 'a option) \<Rightarrow> 'a \<Rightarrow> 'a" where
  "nullish options field fallback =
     (case Option.bind options field of Some x \<Rightarrow> x | None \<Rightarrow> fallback)"

text \<open>The object \<open>evaluationOptions\<close> that \<open>vibeCheck\<close> builds (``Merge evaluation options'').\<close>

definition evaluationOptions :: "VibeConfig \<Rightarrow> VibeCheckOptions option \<Rightarrow> EvaluateOptions" where
  "evaluationOptions vibeConfig options =
     \<lparr>confidenceThreshold =
        Value (nullish options check_confidenceThreshold
                 (session_confidenceThreshold (evaluation vibeConfig))),
      modelParameters =
        Value (spread (spread [] (session_modelParameters (evaluation vibeConfig)))
                 (nullish options check_modelParameters [])),
      includeRawResponse =
        Value (nullish options check_includeRawResponse
                 (session_includeRawResponse (evaluation vibeConfig))),
      maxRetries =
        Value (nullish options check_maxRetries (session_maxRetries (evaluation vibeConfig)))\<rparr>"

text \<open>
  The object \<open>mergedOptions\<close> of \<open>BaseLLMProvider.evaluateScreenshot\<close>:
  \<^verbatim>\<open>{confidenceThreshold: ..., maxRetries: ..., ...options}\<close>. A key that \<open>options\<close> has
  replaces the default, also when its value is \<open>undefined\<close>.
\<close>

definition optionProp :: "'a option \<Rightarrow> 'a property" where
  "optionProp v = (case v of None \<Rightarrow> Undefined | Some x \<Rightarrow> Value x)"

definition spreadProp :: "'a property \<Rightarrow> 'a property \<Rightarrow> 'a property" where
  "spreadProp d p = (case p of Absent \<Rightarrow> d | _ \<Rightarrow> p)"

definition mergedOptions :: "LLMProviderConfig \<Rightarrow> EvaluateOptions option \<Rightarrow> EvaluateOptions" where
  "mergedOptions config options =
     (case options of
        None \<Rightarrow>
          \<lparr>confidenceThreshold = optionProp (defaultConfidenceThreshold config),
           modelParameters = Absent,
           includeRawResponse = Absent,
           maxRetries = optionProp (defaultMaxRetries config)\<rparr>
      | Some opts \<Rightarrow>
          \<lparr>confidenceThreshold =
             spreadProp (optionProp (defaultConfidenceThreshold config)) (confidenceThreshold opts),
           modelParameters = modelParameters opts,
           includeRawResponse = includeRawResponse opts,
           maxRetries = spreadProp (optionProp (defaultMaxRetries config)) (maxRetries opts)\<rparr>)"

text \<open>\<^verbatim>\<open>(mergedOptions.maxRetries || 1)\<close>\<close>

definition attemptLimit :: "EvaluateOptions \<Rightarrow> int" where
  "attemptLimit opts = (case maxRetries opts of Value n \<Rightarrow> if n \<noteq> 0 then n else 1 | _ \<Rightarrow> 1)"

section \<open>The retry loop (src/providers/base-provider.ts)\<close>

text \<open>
  What a call of \<open>evaluateScreenshot\<close> does besides returning: the number of calls of
  \<open>evaluateScreenshotInternal\<close>, the number of network requests, and the delays in
  milliseconds that it waited, in order.
\<close>

record trace =
  calls :: nat
  requests :: nat
  sleeps :: "nat list"

definition noTrace :: trace where
  "noTrace = \<lparr>calls = 0, requests = 0, sleeps = []\<rparr>"

text \<open>
  The \<^verbatim>\<open>for\<close> loop and the \<^verbatim>\<open>throw\<close> behind it. The abstract method
  \<open>evaluateScreenshotInternal\<close> is the parameter \<open>internal\<close>: the outcome of its call in
  the given attempt, with the number of network requests the call made.
\<close>

function retryLoop ::
  "string \<Rightarrow> (nat \<Rightarrow> (error + 'r) \<times> nat) \<Rightarrow> int \<Rightarrow> nat \<Rightarrow> error option \<Rightarrow> trace
   \<Rightarrow> (error + 'r) \<times> trace" where
  "retryLoop providerName internal limit attempt lastError tr =
     (if int attempt \<le> limit then
        (case internal attempt of
           (outcome, sent) \<Rightarrow>
             (let tr1 = tr\<lparr>calls := calls tr + 1, requests := requests tr + sent\<rparr>
              in case outcome of
                   Inr result \<Rightarrow> (Inr result, tr1)
                 | Inl err \<Rightarrow>
                     if int attempt \<ge> limit then (Inl err, tr1)
                     else retryLoop providerName internal limit (attempt + 1) (Some err)
                            (tr1\<lparr>sleeps := sleeps tr1 @ [1000 * 2 ^ (attempt - 1)]\<rparr>)))
      else
        (Inl (case lastError of
                Some err \<Rightarrow> err
              | None \<Rightarrow> Error (''Unknown error evaluating screenshot with '' @ providerName)),
         tr))"
  by pat_completeness auto
termination
  by (relation "measure (\<lambda>(providerName, internal, limit, attempt, lastError, tr).
        nat (limit + 1 - int attempt))") auto

declare retryLoop.simps [simp del]

text \<open>\<open>BaseLLMProvider.evaluateScreenshot\<close>; \<open>exists\<close> is the answer of \<open>pathExists\<close>.\<close>

definition evaluateScreenshot ::
  "string \<Rightarrow> LLMProviderConfig \<Rightarrow> (EvaluateOptions \<Rightarrow> nat \<Rightarrow> (error + 'r) \<times> nat) \<Rightarrow> bool
   \<Rightarrow> string \<Rightarrow> EvaluateOptions option \<Rightarrow> (error + 'r) \<times> trace" where
  "evaluateScreenshot providerName config internal exists path options =
     (if \<not> exists
      then (Inl (Error (''Screenshot does not exist at path: '' @ path)), noTrace)
      else retryLoop providerName (internal (mergedOptions config options))
             (attemptLimit (mergedOptions config options)) 1 None noTrace)"
text \<open>
  Sample data for the retry loop: a provider configuration, options asking for three
  attempts, a backend that is down, and one that answers at the second attempt.
\<close>

definition sampleConfig :: LLMProviderConfig where
  "sampleConfig =
     \<lparr>apiKey = None, apiKeyEnvVar = None, defaultConfidenceThreshold = Some 0.8,
      defaultMaxRetries = Some 3, model = None, maxTokens = None, temperature = Some 0.3\<rparr>"

definition threeAttempts :: EvaluateOptions where
  "threeAttempts =
     \<lparr>confidenceThreshold = Value 0.8, modelParameters = Value [],
      includeRawResponse = Value False, maxRetries = Value 3\<rparr>"

definition alwaysDown :: "EvaluateOptions \<Rightarrow> nat \<Rightarrow> (error + nat) \<times> nat" where
  "alwaysDown opts attempt = (Inl (Error (''down at attempt '' @ showNat attempt)), 1)"

definition upAtSecond :: "EvaluateOptions \<Rightarrow> nat \<Rightarrow> (error + nat) \<times> nat" where
  "upAtSecond opts attempt = (if attempt = 2 then (Inr 7, 1) else (Inl (Error ''down''), 1))"

section \<open>The judge adapters (src/providers/openai-provider.ts and its Anthropic twin)\<close>

datatype LLMProviderType = OpenAI | Anthropic

fun providerName :: "LLMProviderType \<Rightarrow> string" where
  "providerName OpenAI = ''OpenAI''"
| "providerName Anthropic = ''Anthropic''"

fun DEFAULT_MODEL :: "LLMProviderType \<Rightarrow> string" where
  "DEFAULT_MODEL OpenAI = ''gpt-4o''"
| "DEFAULT_MODEL Anthropic = ''claude-sonnet-4-5-20250929''"

text \<open>\<open>ENV_VARS.OPENAI_API_KEY\<close> and \<open>ENV_VARS.ANTHROPIC_API_KEY\<close> of src/utils/env.ts.\<close>

fun apiKeyVariable :: "LLMProviderType \<Rightarrow> string" where
  "apiKeyVariable OpenAI = ''OPENAI_API_KEY''"
| "apiKeyVariable Anthropic = ''ANTHROPIC_API_KEY''"

fun missingKeyMessage :: "LLMProviderType \<Rightarrow> string" where
  "missingKeyMessage OpenAI =
     ''No OpenAI API key provided. Please check your environment variables.''"
| "missingKeyMessage Anthropic =
     ''No Anthropic API key provided. Please check your environment variables.''"

text \<open>
  \<open>getApiKey\<close> of src/utils/env.ts, called with no default value: the value of the
  variable, or \<open>undefined\<close> when it is unset or empty.
\<close>

definition getApiKey :: "environment \<Rightarrow> string \<Rightarrow> string option" where
  "getApiKey env envVarName =
     (case env envVarName of Some s \<Rightarrow> if s \<noteq> [] then Some s else None | None \<Rightarrow> None)"

text \<open>The constructor of a provider: \<open>validateConfig\<close> of the subclass on the given configuration.\<close>

definition providerConfig :: "LLMProviderType \<Rightarrow> environment \<Rightarrow> LLMProviderConfig \<Rightarrow> LLMProviderConfig" where
  "providerConfig kind env config =
     (let validatedConfig = validateConfig env config
      in validatedConfig\<lparr>model := Some (orString (model validatedConfig) (DEFAULT_MODEL kind))\<rparr>)"

text \<open>
  The world around an adapter. \<open>access\<close> tells whether \<^verbatim>\<open>fs.promises.access\<close> succeeds,
  \<open>readFile\<close> gives the base64 text of a file or the error of \<^verbatim>\<open>fs.promises.readFile\<close>.
  \<open>fetch\<close> gives the outcome of the request of an attempt up to the assignment of
  \<open>content\<close>: either the error thrown on the way (a rejected \<^verbatim>\<open>fetch\<close>, the error
  built from a response that is not ok, a body that is not JSON), or the reply text
  \<open>content\<close> taken from the body, together with the parsed body \<open>data\<close>.
\<close>

datatype transport = Failed error | Replied string json

record world =
  access :: "string \<Rightarrow> bool"
  readFile :: "string \<Rightarrow> error + string"
  env :: environment
  fetch :: "nat \<Rightarrow> transport"

text \<open>
  The object that an adapter returns. The casts of the source (\<^verbatim>\<open>as number\<close>,
  \<^verbatim>\<open>as string\<close>) do not check anything, so each property holds whatever JSON value
  the reply had; \<open>None\<close> is \<open>undefined\<close>.
\<close>

record ResponseObject =
  confidenceV :: "json option"
  reasoningV :: "json option"
  verdictV :: "json option"
  failReasonV :: "json option"
  suggestionsV :: "json option"
  rawResponseV :: "json option"

text \<open>
  \<^verbatim>\<open>content.match(/(\{[\s\S]*\})/)\<close>: the text from the first opening brace to the
  last closing brace behind it, if there is one.
\<close>

definition jsonMatch :: "string \<Rightarrow> string option" where
  "jsonMatch content =
     (let fromBrace = dropWhile (\<lambda>c. c \<noteq> CHR ''{'') content
      in if CHR ''}'' \<in> set fromBrace
         then Some (rev (dropWhile (\<lambda>c. c \<noteq> CHR ''}'') (rev fromBrace)))
         else None)"

text \<open>The inner \<^verbatim>\<open>try\<close>/\<^verbatim>\<open>catch\<close>: the parsed reply, or the fallback object.\<close>

definition parseErrorObject :: "string \<Rightarrow> json" where
  "parseErrorObject content =
     JObject [(''confidence'', JNumber 0),
              (''reasoning'', JString (''Error parsing response: '' @ content)),
              (''verdict'', JString ''no'')]"

definition jsonText :: "string \<Rightarrow> string" where
  "jsonText content = (case jsonMatch content of Some m \<Rightarrow> m | None \<Rightarrow> content)"

definition parseReply :: "host \<Rightarrow> string \<Rightarrow> json" where
  "parseReply h content =
     (case JSON_parse h (jsonText content) of
        Some resultJson \<Rightarrow> resultJson
      | None \<Rightarrow> parseErrorObject content)"

text \<open>
  \<^verbatim>\<open>"confidence" in resultJson\<close>: an own property of an object; no array has it; on a
  primitive value the operator throws a TypeError.
\<close>

fun hasConfidence :: "json \<Rightarrow> error + bool" where
  "hasConfidence (JObject members) = Inr (map_of members ''confidence'' \<noteq> None)"
| "hasConfidence (JArray elements) = Inr False"
| "hasConfidence v = Inl (TypeError ''Cannot use the in operator on a primitive value'')"

text \<open>\<^verbatim>\<open>resultJson.key\<close> where \<open>resultJson\<close> is an object.\<close>

fun member :: "json \<Rightarrow> string \<Rightarrow> json option" where
  "member (JObject members) key = map_of members key"
| "member v key = None"

text \<open>\<^verbatim>\<open>v || d\<close>: \<open>undefined\<close>, \<open>null\<close>, \<open>false\<close>, \<open>0\<close> and \<open>""\<close> are falsy.\<close>

fun truthy :: "json \<Rightarrow> bool" where
  "truthy JNull = False"
| "truthy (JBool b) = b"
| "truthy (JNumber x) = (x \<noteq> 0)"
| "truthy (JString s) = (s \<noteq> [])"
| "truthy (JArray elements) = True"
| "truthy (JObject members) = True"

definition orJson :: "json option \<Rightarrow> json \<Rightarrow> json" where
  "orJson v d = (case v of Some x \<Rightarrow> if truthy x then x else d | None \<Rightarrow> d)"

text \<open>\<^verbatim>\<open>options.includeRawResponse ? raw : undefined\<close>\<close>

definition rawIfAsked :: "EvaluateOptions \<Rightarrow> json \<Rightarrow> json option" where
  "rawIfAsked options raw =
     (case includeRawResponse options of Value True \<Rightarrow> Some raw | _ \<Rightarrow> None)"

text \<open>
  From the test for \<open>confidence\<close> to the \<^verbatim>\<open>return\<close> statements. \<open>raw\<close> is the value
  for \<open>rawResponse\<close>: \<open>content\<close> in the OpenAI adapter, \<open>data\<close> in the Anthropic one.
\<close>

definition buildResponse :: "host \<Rightarrow> EvaluateOptions \<Rightarrow> json \<Rightarrow> json \<Rightarrow> error + ResponseObject" where
  "buildResponse h options raw resultJson =
     (case hasConfidence resultJson of
        Inl err \<Rightarrow> Inl err
      | Inr False \<Rightarrow>
          Inr \<lparr>confidenceV = Some (JNumber 0),
               reasoningV =
                 Some (JString (''Invalid response format: '' @ JSON_stringify h resultJson)),
               verdictV = Some (JString ''no''),
               failReasonV = None,
               suggestionsV = None,
               rawResponseV = rawIfAsked options raw\<rparr>
      | Inr True \<Rightarrow>
          Inr \<lparr>confidenceV = member resultJson ''confidence'',
               reasoningV =
                 Some (orJson (member resultJson ''reasoning'') (JString ''No reasoning provided'')),
               verdictV = Some (orJson (member resultJson ''verdict'') (JString ''no'')),
               failReasonV = member resultJson ''failReason'',
               suggestionsV = member resultJson ''suggestions'',
               rawResponseV = rawIfAsked options raw\<rparr>)"

fun rawOf :: "LLMProviderType \<Rightarrow> string \<Rightarrow> json \<Rightarrow> json" where
  "rawOf OpenAI content data = JString content"
| "rawOf Anthropic content data = data"

text \<open>The normalization of a reply text: parse, then build the response.\<close>

definition normalizeReply ::
  "host \<Rightarrow> LLMProviderType \<Rightarrow> EvaluateOptions \<Rightarrow> string \<Rightarrow> json \<Rightarrow> error + ResponseObject" where
  "normalizeReply h kind options content data =
     buildResponse h options (rawOf kind content data) (parseReply h content)"

text \<open>
  \<open>evaluateScreenshotInternal\<close> in the given attempt: the outcome and the number of
  requests sent. The outer \<^verbatim>\<open>catch\<close> logs and rethrows, so every error passes through.
\<close>

definition evaluateScreenshotInternal ::
  "host \<Rightarrow> world \<Rightarrow> LLMProviderType \<Rightarrow> LLMProviderConfig \<Rightarrow> string \<Rightarrow> string
   \<Rightarrow> EvaluateOptions \<Rightarrow> nat \<Rightarrow> (error + ResponseObject) \<times> nat" where
  "evaluateScreenshotInternal h w kind config path specification options attempt =
     (case readFile w path of
        Inl err \<Rightarrow> (Inl err, 0)
      | Inr base64Image \<Rightarrow>
          if base64Image = []
          then (Inl (Error (''Could not read screenshot file: '' @ path)), 0)
          else if \<not> truthyString (apiKey config)
                  \<and> getApiKey (env w) (apiKeyVariable kind) = None
          then (Inl (Error (missingKeyMessage kind)), 0)
          else (case fetch w attempt of
                  Failed err \<Rightarrow> (Inl err, 1)
                | Replied content data \<Rightarrow> (normalizeReply h kind options content data, 1)))"

text \<open>\<open>evaluateScreenshot\<close> of a provider of the given kind, built from \<open>config\<close>.\<close>

definition providerEvaluateScreenshot ::
  "host \<Rightarrow> world \<Rightarrow> LLMProviderType \<Rightarrow> LLMProviderConfig \<Rightarrow> string \<Rightarrow> string
   \<Rightarrow> EvaluateOptions option \<Rightarrow> (error + ResponseObject) \<times> trace" where
  "providerEvaluateScreenshot h w kind config path specification options =
     evaluateScreenshot (providerName kind) (providerConfig kind (env w) config)
       (evaluateScreenshotInternal h w kind (providerConfig kind (env w) config) path specification)
       (access w path) path options"

text \<open>
  The response object read at the types that \<open>LLMResponse\<close> declares; \<open>None\<close> when a
  property holds a value of another type.
\<close>

fun stringsOf :: "json list \<Rightarrow> string list option" where
  "stringsOf [] = Some []"
| "stringsOf (JString s # rest) = map_option (\<lambda>ss. s # ss) (stringsOf rest)"
| "stringsOf (v # rest) = None"

definition asLLMResponse :: "ResponseObject \<Rightarrow> LLMResponse option" where
  "asLLMResponse r =
     (case (verdictV r, confidenceV r) of
        (Some (JString v), Some (JNumber c)) \<Rightarrow>
          (case (case failReasonV r of
                   None \<Rightarrow> Some None | Some (JString s) \<Rightarrow> Some (Some s) | Some _ \<Rightarrow> None,
                 case reasoningV r of
                   None \<Rightarrow> Some None | Some (JString s) \<Rightarrow> Some (Some s) | Some _ \<Rightarrow> None,
                 case suggestionsV r of
                   None \<Rightarrow> Some None
                 | Some (JArray xs) \<Rightarrow> map_option Some (stringsOf xs)
                 | Some _ \<Rightarrow> None) of
             (Some f, Some rs, Some ss) \<Rightarrow>
               Some \<lparr>verdict = v, confidence = c, failReason = f, reasoning = rs,
                     suggestions = ss, rawResponse = rawResponseV r\<rparr>
           | _ \<Rightarrow> None)
      | _ \<Rightarrow> None)"

text \<open>The degraded response: verdict "no" with confidence 0 and the given reasoning.\<close>

definition degraded :: "string \<Rightarrow> json option \<Rightarrow> ResponseObject" where
  "degraded why raw =
     \<lparr>confidenceV = Some (JNumber 0), reasoningV = Some (JString why),
      verdictV = Some (JString ''no''), failReasonV = None, suggestionsV = None,
      rawResponseV = raw\<rparr>"

text \<open>
  Sample worlds: the screenshot exists and can be read; the key of the OpenAI adapter is
  set or not; every request gets the given reply text.
\<close>

definition replyingWorld :: "string \<Rightarrow> world" where
  "replyingWorld content =
     \<lparr>access = (\<lambda>p. True), readFile = (\<lambda>p. Inr ''iVBORw0KGgo=''),
      env = [''OPENAI_API_KEY'' \<mapsto> ''sk-test''],
      fetch = (\<lambda>attempt. Replied content JNull)\<rparr>"

definition keylessWorld :: world where
  "keylessWorld = (replyingWorld ''{}'')\<lparr>env := Map.empty\<rparr>"

section \<open>Option objects in the store\<close>

text \<open>
  For the question whether merging changes its sources, objects live in a store: an
  object is the list of its own properties in insertion order, an address is an index
  into the store, and a value is a primitive or the address of an object.
\<close>

datatype val = VUndefined | VNull | VBool bool | VNum real | VStr string | VRef nat

type_synonym object = "(string \<times> val) list"

type_synonym store = "object list"

definition objectAt :: "store \<Rightarrow> nat \<Rightarrow> object" where
  "objectAt st a = (if a < length st then st ! a else [])"

text \<open>An object literal makes a new object behind all the others.\<close>

definition alloc :: "object \<Rightarrow> store \<Rightarrow> nat \<times> store" where
  "alloc obj st = (length st, st @ [obj])"

text \<open>\<^verbatim>\<open>v.key\<close> on an object, and \<^verbatim>\<open>v?.key\<close> on an object or \<open>undefined\<close>.\<close>

definition getProp :: "store \<Rightarrow> val \<Rightarrow> string \<Rightarrow> val" where
  "getProp st v key =
     (case v of
        VRef a \<Rightarrow> (case map_of (objectAt st a) key of Some x \<Rightarrow> x | None \<Rightarrow> VUndefined)
      | _ \<Rightarrow> VUndefined)"

text \<open>The properties that \<^verbatim>\<open>...v\<close> copies: those of an object, none of \<open>undefined\<close>.\<close>

definition ownProps :: "store \<Rightarrow> val \<Rightarrow> object" where
  "ownProps st v = (case v of VRef a \<Rightarrow> objectAt st a | _ \<Rightarrow> [])"

text \<open>\<^verbatim>\<open>a ?? b\<close>\<close>

definition coalesce :: "val \<Rightarrow> val \<Rightarrow> val" where
  "coalesce a b = (if a = VUndefined \<or> a = VNull then b else a)"

text \<open>
  The statement ``Merge evaluation options'' of \<open>vibeCheck\<close>: two object literals, the
  inner one for \<open>modelParameters\<close>. \<open>options\<close> is the argument of the check (an object
  or \<open>undefined\<close>), \<open>session\<close> the address of \<^verbatim>\<open>vibeConfig.evaluation\<close>.
\<close>

definition evaluationOptionsObject :: "store \<Rightarrow> val \<Rightarrow> nat \<Rightarrow> nat \<times> store" where
  "evaluationOptionsObject st options session =
     (let confidenceThreshold =
            coalesce (getProp st options ''confidenceThreshold'')
              (getProp st (VRef session) ''confidenceThreshold'');
          includeRawResponse =
            coalesce (getProp st options ''includeRawResponse'')
              (getProp st (VRef session) ''includeRawResponse'');
          maxRetries =
            coalesce (getProp st options ''maxRetries'') (getProp st (VRef session) ''maxRetries'')
      in case alloc (spread (spread [] (ownProps st (getProp st (VRef session) ''modelParameters'')))
                       (ownProps st (getProp st options ''modelParameters''))) st of
           (parameters, st1) \<Rightarrow>
             alloc [(''confidenceThreshold'', confidenceThreshold),
                    (''includeRawResponse'', includeRawResponse),
                    (''maxRetries'', maxRetries),
                    (''modelParameters'', VRef parameters)] st1)"

text \<open>
  The statement ``Merge options with defaults'' of \<open>BaseLLMProvider.evaluateScreenshot\<close>;
  \<open>config\<close> is the address of \<^verbatim>\<open>this.config\<close>.
\<close>

definition mergedOptionsObject :: "store \<Rightarrow> nat \<Rightarrow> val \<Rightarrow> nat \<times> store" where
  "mergedOptionsObject st config options =
     alloc (spread [(''confidenceThreshold'', getProp st (VRef config) ''defaultConfidenceThreshold''),
                    (''maxRetries'', getProp st (VRef config) ''defaultMaxRetries'')]
              (ownProps st options)) st"

text \<open>Both merges, as a check runs them: the result of the first is the \<open>options\<close> of the second.\<close>

definition mergeLayers :: "store \<Rightarrow> val \<Rightarrow> nat \<Rightarrow> nat \<Rightarrow> nat \<times> store" where
  "mergeLayers st options session config =
     (case evaluationOptionsObject st options session of
        (merged, st1) \<Rightarrow> mergedOptionsObject st1 config (VRef merged))"

text \<open>In a store of the program no object has a key twice.\<close>

definition wellFormed :: "store \<Rightarrow> bool" where
  "wellFormed st = list_all (\<lambda>obj. distinct (map fst obj)) st"

text \<open>
  A sample store: the options of a check at address 0, their model parameters at 1, the
  evaluation part of the session configuration at 2, its model parameters at 3, and the
  configuration of the provider at 4.
\<close>

definition sampleStore :: store where
  "sampleStore =
     [(''confidenceThreshold'', VNum 0.5), (''modelParameters'', VRef 1)]
     # [(''temperature'', VNum 0)]
     # [(''confidenceThreshold'', VNum 0.8), (''includeRawResponse'', VBool False),
        (''maxRetries'', VNum 2), (''modelParameters'', VRef 3)]
     # [(''temperature'', VNum 0.7), (''seed'', VNum 7)]
     # [(''apiKey'', VStr ''sk-test''), (''defaultConfidenceThreshold'', VNum 0.6),
        (''defaultMaxRetries'', VNum 3), (''temperature'', VNum 0.3)]
     # []"

section \<open>The check as a whole (src/playwright/fixtures.ts, vibeCheck)\<close>

text \<open>
  What the test runner gives a check: the clock value of \<^verbatim>\<open>Date.now()\<close>, the outcome
  of \<^verbatim>\<open>fs.promises.mkdir\<close> with \<^verbatim>\<open>recursive: true\<close> (an error code, or \<open>None\<close>),
  and the outcome of \<^verbatim>\<open>target.screenshot\<close> (an error, or \<open>None\<close>).
\<close>

record runner =
  now :: nat
  mkdir :: "string \<Rightarrow> string option"
  capture :: "string \<Rightarrow> error option"

record testInfo =
  title :: string
  outputDir :: "string option"

text \<open>\<open>ensureDir\<close> of src/utils/fs-utils.ts: only the error code EEXIST is swallowed.\<close>

definition ensureDir :: "runner \<Rightarrow> string \<Rightarrow> error option" where
  "ensureDir w dirPath =
     (case mkdir w dirPath of
        None \<Rightarrow> None
      | Some code \<Rightarrow> if code \<noteq> ''EEXIST'' then Some (HostError code) else None)"

text \<open>
  \<open>LLMService.evaluateScreenshot\<close>; \<open>call\<close> is the method \<open>evaluateScreenshot\<close> of the
  interface \<open>LLMProvider\<close>.
\<close>

definition serviceEvaluateScreenshot ::
  "('p \<Rightarrow> string \<Rightarrow> string \<Rightarrow> EvaluateOptions option \<Rightarrow> error + LLMResponse) \<Rightarrow> 'p LLMService
   \<Rightarrow> string \<Rightarrow> string \<Rightarrow> string option \<Rightarrow> EvaluateOptions option \<Rightarrow> error + LLMResponse" where
  "serviceEvaluateScreenshot call s path specification wanted options =
     (case getProvider wanted s of
        Inl err \<Rightarrow> Inl err
      | Inr p \<Rightarrow> call p path specification options)"

definition vibeCheck ::
  "host \<Rightarrow> runner \<Rightarrow> ('p \<Rightarrow> string \<Rightarrow> string \<Rightarrow> EvaluateOptions option \<Rightarrow> error + LLMResponse)
   \<Rightarrow> 'p LLMService \<Rightarrow> VibeConfig \<Rightarrow> testInfo \<Rightarrow> string \<Rightarrow> VibeCheckOptions option
   \<Rightarrow> error + VibeCheckResult" where
  "vibeCheck h w call llmService vibeConfig info specification options =
     (let screenshotName =
            generateScreenshotName (now w) (title info) (Option.bind options name);
          screenshotDir =
            path_join h (orString (outputDir info) ''test-results'') ''vibe-screenshots''
      in case ensureDir w screenshotDir of
           Some err \<Rightarrow> Inl err
         | None \<Rightarrow>
             (let path = path_join h screenshotDir (screenshotName @ ''.png'')
              in case capture w path of
                   Some err \<Rightarrow> Inl err
                 | None \<Rightarrow>
                     (let wanted =
                            (if truthyString (Option.bind options provider)
                             then Option.bind options provider
                             else Some (defaultProvider vibeConfig));
                          merged = evaluationOptions vibeConfig options
                      in case serviceEvaluateScreenshot call llmService path specification
                                wanted (Some merged) of
                           Inl err \<Rightarrow> Inl err
                         | Inr result \<Rightarrow>
                             assertThreshold h specification result
                               (case confidenceThreshold merged of Value x \<Rightarrow> x | _ \<Rightarrow> 0.8)
                               path)))"

text \<open>The screenshot path of a check.\<close>

definition screenshotPathOf :: "host \<Rightarrow> runner \<Rightarrow> testInfo \<Rightarrow> VibeCheckOptions option \<Rightarrow> string" where
  "screenshotPathOf h w info options =
     path_join h (path_join h (orString (outputDir info) ''test-results'') ''vibe-screenshots'')
       (generateScreenshotName (now w) (title info) (Option.bind options name) @ ''.png'')"

section \<open>Artifact names\<close>

lemma showNat_nonempty: "showNat n \<noteq> []"
  by (subst showNat.simps) simp

lemma isDigit_digitChar: "d < 10 \<Longrightarrow> isDigit (digitChar d)"
  by (simp add: isDigit_def digitChar_def)

lemma showNat_digits: "list_all isDigit (showNat n)"
proof (induction n rule: showNat.induct)
  case (1 n)
  show ?case
  proof (cases "n < 10")
    case True
    then show ?thesis
      by (subst showNat.simps) (simp add: isDigit_digitChar)
  next
    case False
    with 1 show ?thesis
      by (subst showNat.simps) (simp add: isDigit_digitChar)
  qed
qed

lemma sanitized_title: "take 50 (collapseHyphens (replaceNonAlnum ''Should Verify!'')) = ''Should-Verify-''"
  by (simp add: replaceNonAlnum_def isAlnum_def)

lemma sanitized_custom: "collapseHyphens (replaceNonAlnum ''btn'') = ''btn''"
  by (simp add: replaceNonAlnum_def isAlnum_def)

lemma name_of_scenario:
  "generateScreenshotName t ''Should Verify!'' (Some ''btn'') = ''Should-Verify--btn-'' @ showNat t"
  by (simp add: generateScreenshotName_def sanitized_title sanitized_custom)

text \<open>
  Claim C9 (as amended). For the test title "Should Verify!" and the custom name "btn",
  and for every timestamp, the generated artifact name is "Should-Verify--btn-" followed
  by the decimal digits of the timestamp: it matches \<^verbatim>\<open>^Should-Verify--btn-\d+$\<close>.
  Letter case is kept, and the hyphen that replaces "!" stays next to the separator.
\<close>

theorem C9_name_keeps_case:
  "generateScreenshotName t ''Should Verify!'' (Some ''btn'') = ''Should-Verify--btn-'' @ showNat t
   \<and> matchesExactPattern (generateScreenshotName t ''Should Verify!'' (Some ''btn''))"
  by (simp add: name_of_scenario matchesExactPattern_def showNat_nonempty showNat_digits)

text \<open>
  Claim C9 as stated fails: at the timestamp 1700000000000 the generated name does not
  match \<^verbatim>\<open>^should-verify-btn-\d+$\<close>.
\<close>

theorem C9_lowercase_pattern_fails:
  "\<not> matchesLowerPattern (generateScreenshotName 1700000000000 ''Should Verify!'' (Some ''btn''))"
  by (simp add: name_of_scenario matchesLowerPattern_def)

section \<open>Defaults of the provider configuration\<close>

lemma validateConfig_defaults:
  "defaultConfidenceThreshold (validateConfig vars config)
     = Some (orNumber (defaultConfidenceThreshold config) 0.8)"
  "defaultMaxRetries (validateConfig vars config) = Some (orNumber (defaultMaxRetries config) 3)"
  "temperature (validateConfig vars config) = Some (orNumber (temperature config) 0.3)"
  by (simp_all add: validateConfig_def Let_def split: option.splits)

lemma orNumber_not_zero: "d \<noteq> 0 \<Longrightarrow> orNumber v d \<noteq> 0"
  by (simp add: orNumber_def split: option.splits)

text \<open>
  Claim C10. Configuration validation replaces a falsy value by the built-in default:
  an explicit 0 for defaultConfidenceThreshold, defaultMaxRetries or temperature comes
  out as 0.8, 3 and 0.3, as an absent value does, and no validated configuration
  holds 0 (or nothing) in any of the three fields.
\<close>

theorem C10_zero_replaced_by_default:
  "defaultConfidenceThreshold
     (validateConfig vars (config\<lparr>defaultConfidenceThreshold := Some 0\<rparr>)) = Some 0.8
   \<and> defaultMaxRetries (validateConfig vars (config\<lparr>defaultMaxRetries := Some 0\<rparr>)) = Some 3
   \<and> temperature (validateConfig vars (config\<lparr>temperature := Some 0\<rparr>)) = Some 0.3
   \<and> defaultConfidenceThreshold
       (validateConfig vars (config\<lparr>defaultConfidenceThreshold := None\<rparr>)) = Some 0.8
   \<and> defaultMaxRetries (validateConfig vars (config\<lparr>defaultMaxRetries := None\<rparr>)) = Some 3
   \<and> temperature (validateConfig vars (config\<lparr>temperature := None\<rparr>)) = Some 0.3
   \<and> defaultConfidenceThreshold (validateConfig vars config) \<notin> {None, Some 0}
   \<and> defaultMaxRetries (validateConfig vars config) \<notin> {None, Some 0}
   \<and> temperature (validateConfig vars config) \<notin> {None, Some 0}"
  by (simp add: validateConfig_defaults orNumber_not_zero) (simp add: orNumber_def)

section \<open>The registry\<close>

lemma map_of_mapSet: "map_of (mapSet k v ps) = (map_of ps)(k \<mapsto> v)"
  by (induction ps) (auto simp: fun_eq_iff)

lemma keys_mapSet: "fst ` set (mapSet k v ps) = insert k (fst ` set ps)"
  by (induction ps) force+

lemma mapSize_one: "mapSize ps = 1 \<Longrightarrow> k \<in> fst ` set ps \<Longrightarrow> fst ` set ps = {k}"
proof -
  assume one: "mapSize ps = 1" and k: "k \<in> fst ` set ps"
  have "card (set (map fst ps)) = 1"
    using one by (simp add: mapSize_def length_remdups_card_conv)
  then obtain a where "fst ` set ps = {a}"
    by (auto simp: card_1_singleton_iff)
  with k show ?thesis by auto
qed

lemma mapSet_not_Nil: "mapSet k v ps \<noteq> []"
  by (cases ps) (auto split: if_splits)

lemma defaultKnown_register: "defaultKnown s \<Longrightarrow> defaultKnown (registerProvider n p d s)"
proof -
  assume inv: "defaultKnown s"
  let ?ps = "mapSet n p (providers s)"
  show ?thesis
  proof (cases "d \<or> mapSize ?ps = 1")
    case True
    then show ?thesis
      by (auto simp: registerProvider_def defaultKnown_def keys_mapSet Let_def)
  next
    case False
    then have size: "mapSize ?ps \<noteq> 1" and nd: "\<not> d" by auto
    show ?thesis
    proof (cases "defaultProviderName s")
      case None
      with inv have "providers s = []" by (simp add: defaultKnown_def)
      then have "mapSize ?ps = 1" by (simp add: mapSize_def)
      with size show ?thesis by simp
    next
      case (Some a)
      with inv have "a \<in> fst ` set (providers s)" by (simp add: defaultKnown_def)
      then have "a \<in> fst ` set ?ps" unfolding keys_mapSet by blast
      with Some size nd show ?thesis
        by (simp add: registerProvider_def defaultKnown_def Let_def)
    qed
  qed
qed

lemma defaultKnown_setDefault:
  "setDefaultProvider n s = Inr s' \<Longrightarrow> defaultKnown s'"
  by (force simp: setDefaultProvider_def defaultKnown_def map_of_eq_None_iff split: if_splits)

lemma reachable_defaultKnown: "reachable s \<Longrightarrow> defaultKnown s"
proof (induction rule: reachable.induct)
  case fresh
  show ?case by (simp add: defaultKnown_def newLLMService_def)
next
  case (registered s name provider isDefault)
  then show ?case by (simp add: defaultKnown_register)
next
  case (defaulted s name s')
  then show ?case by (simp add: defaultKnown_setDefault)
qed

lemma later_registration_keeps_default:
  assumes "reachable s" and "providers s \<noteq> []"
  shows "defaultProviderName (registerProvider n p False s) = defaultProviderName s"
proof -
  let ?ps = "mapSet n p (providers s)"
  from assms obtain d where d: "defaultProviderName s = Some d" "d \<in> fst ` set (providers s)"
    using reachable_defaultKnown [OF assms(1)]
    by (auto simp: defaultKnown_def split: option.splits)
  show ?thesis
  proof (cases "mapSize ?ps = 1")
    case True
    have "n \<in> fst ` set ?ps" and "d \<in> fst ` set ?ps"
      using d(2) unfolding keys_mapSet by blast+
    with True have "fst ` set ?ps = {n}" and "fst ` set ?ps = {d}"
      by (blast dest: mapSize_one)+
    then have "n = d" by auto
    with True d show ?thesis by (simp add: registerProvider_def Let_def)
  next
    case False
    then show ?thesis by (simp add: registerProvider_def Let_def)
  qed
qed

text \<open>
  Claim C7. (1) The first registration becomes the default even with isDefault false.
  (2) With nothing registered, resolving without a name fails. (3) Resolving a name
  right after registering it returns the registered evaluator. (4) Resolving a name that
  is not registered fails. (5) setDefaultProvider on a name that is not registered
  fails. (6) In a registry built from registrations and setDefaultProvider calls that
  already holds a provider, a registration with isDefault false leaves the default as it
  was, one with isDefault true makes the new name the default, and a successful
  setDefaultProvider makes its name the default. A name is a non-empty string: the
  registry reads an empty name as no name.
\<close>

theorem C7_registry:
  "defaultProviderName (registerProvider n p False newLLMService) = Some n
   \<and> \<not> isOk (getProvider None (newLLMService :: 'p LLMService))
   \<and> (n \<noteq> [] \<longrightarrow> getProvider (Some n) (registerProvider n p d s) = Inr p)
   \<and> (n \<noteq> [] \<and> map_of (providers s) n = None \<longrightarrow> \<not> isOk (getProvider (Some n) s))
   \<and> (map_of (providers s) n = None \<longrightarrow> \<not> isOk (setDefaultProvider n s))
   \<and> (reachable s \<and> providers s \<noteq> [] \<longrightarrow>
        defaultProviderName (registerProvider n p False s) = defaultProviderName s)
   \<and> defaultProviderName (registerProvider n p True s) = Some n
   \<and> (setDefaultProvider m s = Inr s' \<longrightarrow> defaultProviderName s' = Some m)"
proof -
  have first: "defaultProviderName (registerProvider n p False newLLMService) = Some n"
    by (simp add: registerProvider_def newLLMService_def mapSize_def)
  have none: "\<not> isOk (getProvider None (newLLMService :: 'p LLMService))"
    by (simp add: getProvider_def newLLMService_def truthyString_def isOk_def)
  have found: "n \<noteq> [] \<longrightarrow> getProvider (Some n) (registerProvider n p d s) = Inr p"
    by (simp add: getProvider_def registerProvider_def truthyString_def map_of_mapSet Let_def)
  have missing: "n \<noteq> [] \<and> map_of (providers s) n = None \<longrightarrow> \<not> isOk (getProvider (Some n) s)"
    by (simp add: getProvider_def truthyString_def isOk_def)
  have nodef: "map_of (providers s) n = None \<longrightarrow> \<not> isOk (setDefaultProvider n s)"
    by (simp add: setDefaultProvider_def isOk_def)
  have later: "reachable s \<and> providers s \<noteq> [] \<longrightarrow>
      defaultProviderName (registerProvider n p False s) = defaultProviderName s"
    by (simp add: later_registration_keeps_default)
  have explicit: "defaultProviderName (registerProvider n p True s) = Some n"
    by (simp add: registerProvider_def Let_def)
  have setd: "setDefaultProvider m s = Inr s' \<longrightarrow> defaultProviderName s' = Some m"
    by (auto simp: setDefaultProvider_def split: if_splits)
  from first none found missing nodef later explicit setd show ?thesis by blast
qed

theorem C7_registry_witness:
  "''x'' \<noteq> [] \<and> map_of (providers sampleService) ''x'' = None
   \<and> reachable sampleService \<and> providers sampleService \<noteq> []
   \<and> setDefaultProvider ''a'' sampleService = Inr sampleService
   \<and> getProvider (Some ''x'') (registerProvider ''x'' 2 False sampleService) = Inr 2
   \<and> \<not> isOk (getProvider (Some ''x'') sampleService)
   \<and> \<not> isOk (setDefaultProvider ''x'' sampleService)
   \<and> defaultProviderName (registerProvider ''x'' 2 False sampleService) = Some ''a''
   \<and> defaultProviderName sampleService = Some ''a''"
proof -
  have name: "''x'' \<noteq> []" by simp
  have absent: "map_of (providers sampleService) ''x'' = None"
    by (simp add: sampleService_def registerProvider_def newLLMService_def mapSize_def)
  have reach: "reachable sampleService"
    unfolding sampleService_def by (intro reachable.intros)
  have nonempty: "providers sampleService \<noteq> []"
    by (simp add: sampleService_def registerProvider_def newLLMService_def mapSize_def)
  have setd: "setDefaultProvider ''a'' sampleService = Inr sampleService"
    by (simp add: sampleService_def registerProvider_def newLLMService_def
        setDefaultProvider_def mapSize_def)
  from C7_registry [of "''x''" 2 False sampleService "''a''" sampleService]
    name absent reach nonempty setd
  show ?thesis by metis
qed

section \<open>The decision of the check\<close>

lemma sublist_behind: "sublist l r \<Longrightarrow> sublist l (a @ r)"
proof -
  assume "sublist l r"
  then obtain ps ss where "r = ps @ l @ ss" by (auto simp: sublist_def)
  then have "a @ r = (a @ ps) @ l @ ss" by simp
  then show ?thesis unfolding sublist_def by blast
qed

lemma sublist_joinWith: "l \<in> set ls \<Longrightarrow> sublist l (joinWith sep ls)"
proof (induction sep ls rule: joinWith.induct)
  case (1 sep)
  then show ?case by simp
next
  case (2 sep x)
  then show ?case by simp
next
  case (3 sep x y ys)
  show ?case
  proof (cases "l = x")
    case True
    then show ?thesis by (simp add: sublist_append_rightI)
  next
    case False
    with 3 have "sublist l (joinWith sep (y # ys))" by simp
    then have "sublist l ((x @ sep) @ joinWith sep (y # ys))"
      by (rule sublist_behind)
    then show ?thesis by simp
  qed
qed

lemma message_lines:
  "sublist (''Specification: \"'' @ spec @ ''\"'') (buildFailureMessage h spec v t path)"
  "sublist (''Verdict: '' @ verdict v) (buildFailureMessage h spec v t path)"
  "sublist (''Confidence: '' @ toFixed h 1 (confidence v * 100) @ ''% (threshold: ''
             @ toFixed h 1 (t * 100) @ ''%)'') (buildFailureMessage h spec v t path)"
  "sublist (''Screenshot: '' @ path) (buildFailureMessage h spec v t path)"
  unfolding buildFailureMessage_def Let_def
  by (rule sublist_joinWith, simp split: option.splits)+

lemma isDigit_zero: "isDigit CHR ''0''"
  by (simp add: isDigit_def)

lemma not_digit_minus: "\<not> isDigit CHR ''-''"
  by (simp add: isDigit_def)

lemma oneDecimal_unsigned:
  assumes "list_all isDigit a" and "a \<noteq> []" and "isDigit d"
  shows "oneDecimal (a @ ''.'' @ [d])"
proof -
  obtain c cs where a: "a = c # cs" using assms(2) by (cases a) auto
  with assms(1) have "c \<noteq> CHR ''-''" using not_digit_minus by auto
  then have head: "(case a @ ''.'' @ [d] of c # cs \<Rightarrow> if c = CHR ''-'' then cs else a @ ''.'' @ [d]
                    | [] \<Rightarrow> a @ ''.'' @ [d]) = a @ ''.'' @ [d]"
    by (simp add: a)
  have "length (a @ ''.'' @ [d]) - 2 = length a" by simp
  moreover have "length (a @ ''.'' @ [d]) - 1 = Suc (length a)" by simp
  moreover have "(a @ ''.'' @ [d]) ! length a = CHR ''.''" by (simp add: nth_append)
  moreover have "(a @ ''.'' @ [d]) ! Suc (length a) = d" by (simp add: nth_append)
  moreover have "3 \<le> length (a @ ''.'' @ [d])" using assms(2) by (cases a) auto
  ultimately show ?thesis
    unfolding oneDecimal_def Let_def head using assms(1,3) by simp
qed

lemma oneDecimal_signed: "oneDecimal r \<Longrightarrow> r \<noteq> [] \<Longrightarrow> hd r \<noteq> CHR ''-'' \<Longrightarrow> oneDecimal (''-'' @ r)"
  by (cases r) (auto simp: oneDecimal_def Let_def)

lemma digits_point_digit:
  assumes "list_all isDigit m" and "length m \<ge> 2"
  shows "oneDecimal (take (length m - 1) m @ ''.'' @ drop (length m - 1) m)"
    and "oneDecimal (''-'' @ take (length m - 1) m @ ''.'' @ drop (length m - 1) m)"
proof -
  let ?a = "take (length m - 1) m" and ?b = "drop (length m - 1) m"
  have lb: "length ?b = 1" using assms(2) by auto
  from lb obtain d where b: "?b = [d]"
    by (metis One_nat_def length_0_conv length_Suc_conv)
  have "d \<in> set m" using b by (metis in_set_dropD list.set_intros(1))
  then have dd: "isDigit d" using assms(1) by (simp add: list_all_iff)
  have da: "list_all isDigit ?a" using assms(1) by (auto simp: list_all_iff dest: in_set_takeD)
  have ne: "?a \<noteq> []" using assms(2) by auto
  have r: "oneDecimal (?a @ ''.'' @ [d])"
    by (rule oneDecimal_unsigned [OF da ne dd])
  show "oneDecimal (?a @ ''.'' @ ?b)" unfolding b by (rule r)
  have "isDigit (hd ?a)" using da ne by (cases ?a) auto
  then have "hd (?a @ ''.'' @ [d]) \<noteq> CHR ''-''" using ne not_digit_minus by auto
  with r have s: "oneDecimal (''-'' @ ?a @ ''.'' @ [d])"
    by (intro oneDecimal_signed) auto
  show "oneDecimal (''-'' @ ?a @ ''.'' @ ?b)" unfolding b by (rule s)
qed

lemma toFixed_one_decimal:
  assumes "\<bar>x\<bar> < 10 ^ 21"
  shows "oneDecimal (toFixed h 1 x)"
proof -
  define n where "n = nat \<lfloor>\<bar>x\<bar> * 10 ^ 1 + 1 / 2\<rfloor>"
  define m where "m = (if length (showNat n) \<le> 1 then replicate (2 - length (showNat n)) CHR ''0'' @ showNat n else showNat n)"
  have dig: "list_all isDigit m"
    unfolding m_def using showNat_digits [of n] by (simp add: list_all_iff isDigit_zero)
  have len: "length m \<ge> 2"
    unfolding m_def by auto
  have "toFixed h 1 x = (if x < 0 then ''-'' else '''') @ take (length m - 1) m @ ''.'' @ drop (length m - 1) m"
    using assms unfolding toFixed_def m_def n_def Let_def by (auto simp: abs_if)
  then show ?thesis
    using digits_point_digit [OF dig len] by auto
qed

text \<open>
  Claim C1. For a verdict that is "yes" or "no" and any threshold, the check passes
  exactly when the verdict is "yes" and the confidence is at least the threshold.
  Otherwise it throws an error whose message holds the specification text, the verdict,
  the confidence and the threshold times 100, printed by toFixed(1) and followed by a
  percent sign, and the screenshot path; below 10^21 that print has one decimal place.
\<close>

theorem C1_decision:
  "verdict v = ''yes'' \<or> verdict v = ''no'' \<Longrightarrow>
     (isOk (assertThreshold h spec v t path) \<longleftrightarrow> verdict v = ''yes'' \<and> t \<le> confidence v)
     \<and> (\<not> isOk (assertThreshold h spec v t path) \<longrightarrow>
          assertThreshold h spec v t path = Inl (Error (buildFailureMessage h spec v t path))
          \<and> sublist spec (buildFailureMessage h spec v t path)
          \<and> sublist (''Verdict: '' @ verdict v) (buildFailureMessage h spec v t path)
          \<and> sublist (''Confidence: '' @ toFixed h 1 (confidence v * 100) @ ''%'')
                (buildFailureMessage h spec v t path)
          \<and> sublist (''threshold: '' @ toFixed h 1 (t * 100) @ ''%'')
                (buildFailureMessage h spec v t path)
          \<and> sublist path (buildFailureMessage h spec v t path))
     \<and> (\<bar>confidence v * 100\<bar> < 10 ^ 21 \<longrightarrow> oneDecimal (toFixed h 1 (confidence v * 100)))
     \<and> (\<bar>t * 100\<bar> < 10 ^ 21 \<longrightarrow> oneDecimal (toFixed h 1 (t * 100)))"
proof -
  assume yn: "verdict v = ''yes'' \<or> verdict v = ''no''"
  let ?msg = "buildFailureMessage h spec v t path"
  have pass: "isOk (assertThreshold h spec v t path) \<longleftrightarrow> verdict v = ''yes'' \<and> t \<le> confidence v"
    using yn by (auto simp: assertThreshold_def isOk_def)
  have thrown: "\<not> isOk (assertThreshold h spec v t path) \<longrightarrow>
      assertThreshold h spec v t path = Inl (Error ?msg)"
    by (simp add: assertThreshold_def isOk_def)
  have "sublist spec (''Specification: \"'' @ spec @ ''\"'')"
    by (rule sublist_appendI)
  then have m1: "sublist spec ?msg"
    using message_lines(1) by (rule sublist_order.order.trans)
  have m2: "sublist (''Verdict: '' @ verdict v) ?msg"
    by (rule message_lines(2))
  let ?line = "''Confidence: '' @ toFixed h 1 (confidence v * 100) @ ''% (threshold: ''
             @ toFixed h 1 (t * 100) @ ''%)''"
  have "?line = (''Confidence: '' @ toFixed h 1 (confidence v * 100) @ ''%'')
      @ ('' (threshold: '' @ toFixed h 1 (t * 100) @ ''%)'')" by simp
  then have "sublist (''Confidence: '' @ toFixed h 1 (confidence v * 100) @ ''%'') ?line"
    by (metis sublist_append_rightI)
  then have m3: "sublist (''Confidence: '' @ toFixed h 1 (confidence v * 100) @ ''%'') ?msg"
    using message_lines(3) by (rule sublist_order.order.trans)
  have "?line = (''Confidence: '' @ toFixed h 1 (confidence v * 100) @ ''% ('')
      @ (''threshold: '' @ toFixed h 1 (t * 100) @ ''%'') @ '')''" by simp
  then have "sublist (''threshold: '' @ toFixed h 1 (t * 100) @ ''%'') ?line"
    by (metis sublist_appendI)
  then have m4: "sublist (''threshold: '' @ toFixed h 1 (t * 100) @ ''%'') ?msg"
    using message_lines(3) by (rule sublist_order.order.trans)
  have "sublist path (''Screenshot: '' @ path)"
    by (rule sublist_append_leftI)
  then have m5: "sublist path ?msg"
    using message_lines(4) by (rule sublist_order.order.trans)
  from pass thrown m1 m2 m3 m4 m5 toFixed_one_decimal show ?thesis by blast
qed

lemma hesitantYes_prints: "toFixed sampleHost 1 (confidence hesitantYes * 100) = ''70.0''"
  "toFixed sampleHost 1 (0.8 * 100) = ''80.0''"
  by (simp add: hesitantYes_def, code_simp)+

theorem C1_decision_witness:
  "(verdict hesitantYes = ''yes'' \<or> verdict hesitantYes = ''no'')
   \<and> \<not> isOk (assertThreshold sampleHost ''A page'' hesitantYes 0.8 ''shot.png'')
   \<and> \<bar>confidence hesitantYes * 100\<bar> < 10 ^ 21 \<and> \<bar>(0.8::real) * 100\<bar> < 10 ^ 21
   \<and> sublist ''Confidence: 70.0%''
        (buildFailureMessage sampleHost ''A page'' hesitantYes 0.8 ''shot.png'')
   \<and> sublist ''threshold: 80.0%''
        (buildFailureMessage sampleHost ''A page'' hesitantYes 0.8 ''shot.png'')
   \<and> oneDecimal ''70.0''"
proof -
  have yn: "verdict hesitantYes = ''yes'' \<or> verdict hesitantYes = ''no''"
    by (simp add: hesitantYes_def)
  have low: "\<not> (verdict hesitantYes = ''yes'' \<and> 0.8 \<le> confidence hesitantYes)"
    by (simp add: hesitantYes_def)
  have small: "\<bar>confidence hesitantYes * 100\<bar> < 10 ^ 21" "\<bar>(0.8::real) * 100\<bar> < 10 ^ 21"
    by (simp_all add: hesitantYes_def)
  from C1_decision [OF yn, of sampleHost "''A page''" "0.8" "''shot.png''"] low small
  show ?thesis
    using yn hesitantYes_prints by auto
qed

section \<open>The retry loop\<close>

lemma retry_all_fail:
  "int attempt \<le> limit \<Longrightarrow>
   (\<And>j. attempt \<le> j \<Longrightarrow> int j \<le> limit \<Longrightarrow> \<not> isOk (fst (internal j))) \<Longrightarrow>
   fst (retryLoop pn internal limit attempt le tr) = fst (internal (nat limit))
   \<and> calls (snd (retryLoop pn internal limit attempt le tr)) = calls tr + (nat limit + 1 - attempt)
   \<and> sleeps (snd (retryLoop pn internal limit attempt le tr))
       = sleeps tr @ map (\<lambda>j. 1000 * 2 ^ (j - 1)) [attempt..<nat limit]"
proof (induction pn internal limit attempt le tr rule: retryLoop.induct)
  case (1 pn internal limit attempt le tr)
  obtain outcome sent where o: "internal attempt = (outcome, sent)"
    by (cases "internal attempt")
  from "1.prems" have "\<not> isOk (fst (internal attempt))" by simp
  with o obtain err where err: "outcome = Inl err"
    by (cases outcome) (auto simp: isOk_def)
  show ?case
  proof (cases "int attempt \<ge> limit")
    case True
    with "1.prems"(1) have eq: "nat limit = attempt" by simp
    show ?thesis
      using True "1.prems"(1) o err eq
      by (subst (1 2 3) retryLoop.simps) (simp add: Let_def)
  next
    case False
    let ?tr1 = "tr\<lparr>calls := calls tr + 1, requests := requests tr + sent\<rparr>"
    let ?tr2 = "?tr1\<lparr>sleeps := sleeps ?tr1 @ [1000 * 2 ^ (attempt - 1)]\<rparr>"
    have step: "retryLoop pn internal limit attempt le tr
        = retryLoop pn internal limit (attempt + 1) (Some err) ?tr2"
      using False "1.prems"(1) o err
      by (subst retryLoop.simps) (simp add: Let_def)
    have lim: "int (attempt + 1) \<le> limit" using False by simp
    have rest: "\<And>j. attempt + 1 \<le> j \<Longrightarrow> int j \<le> limit \<Longrightarrow> \<not> isOk (fst (internal j))"
      using "1.prems"(2) by simp
    have lt: "attempt < nat limit" using False by simp
    note ih = "1.IH" [OF "1.prems"(1) o [symmetric] refl err False lim rest]
    show ?thesis
      unfolding step using ih lt
      by (simp add: upt_conv_Cons [OF lt])
  qed
qed

lemma retry_first_success:
  "attempt \<le> k \<Longrightarrow> int k \<le> limit \<Longrightarrow>
   (\<And>j. attempt \<le> j \<Longrightarrow> j < k \<Longrightarrow> \<not> isOk (fst (internal j))) \<Longrightarrow>
   fst (internal k) = Inr r \<Longrightarrow>
   fst (retryLoop pn internal limit attempt le tr) = Inr r
   \<and> calls (snd (retryLoop pn internal limit attempt le tr)) = calls tr + (k + 1 - attempt)
   \<and> sleeps (snd (retryLoop pn internal limit attempt le tr))
       = sleeps tr @ map (\<lambda>j. 1000 * 2 ^ (j - 1)) [attempt..<k]"
proof (induction pn internal limit attempt le tr rule: retryLoop.induct)
  case (1 pn internal limit attempt le tr)
  obtain outcome sent where o: "internal attempt = (outcome, sent)"
    by (cases "internal attempt")
  have inlimit: "int attempt \<le> limit" using "1.prems"(1,2) by simp
  show ?case
  proof (cases "attempt = k")
    case True
    with o "1.prems"(4) have "outcome = Inr r" by simp
    then show ?thesis
      using True inlimit o
      by (subst (1 2 3) retryLoop.simps) (simp add: Let_def)
  next
    case False
    then have lt: "attempt < k" using "1.prems"(1) by simp
    then have "\<not> isOk (fst (internal attempt))" using "1.prems"(3) by simp
    with o obtain err where err: "outcome = Inl err"
      by (cases outcome) (auto simp: isOk_def)
    have notlast: "\<not> int attempt \<ge> limit" using lt "1.prems"(2) by simp
    let ?tr1 = "tr\<lparr>calls := calls tr + 1, requests := requests tr + sent\<rparr>"
    let ?tr2 = "?tr1\<lparr>sleeps := sleeps ?tr1 @ [1000 * 2 ^ (attempt - 1)]\<rparr>"
    have step: "retryLoop pn internal limit attempt le tr
        = retryLoop pn internal limit (attempt + 1) (Some err) ?tr2"
      using notlast inlimit o err
      by (subst retryLoop.simps) (simp add: Let_def)
    have next_le: "attempt + 1 \<le> k" using lt by simp
    have rest: "\<And>j. attempt + 1 \<le> j \<Longrightarrow> j < k \<Longrightarrow> \<not> isOk (fst (internal j))"
      using "1.prems"(3) by simp
    note ih = "1.IH" [OF inlimit o [symmetric] refl err notlast next_le "1.prems"(2) rest "1.prems"(4)]
    show ?thesis
      unfolding step using ih lt
      by (simp add: upt_conv_Cons [OF lt])
  qed
qed

lemma retry_no_requests:
  "(\<And>j. snd (internal j) = 0) \<Longrightarrow>
   requests (snd (retryLoop pn internal limit attempt le tr)) = requests tr"
proof (induction pn internal limit attempt le tr rule: retryLoop.induct)
  case (1 pn internal limit attempt le tr)
  obtain outcome sent where o: "internal attempt = (outcome, sent)"
    by (cases "internal attempt")
  with "1.prems" [of attempt] have sent: "sent = 0" by simp
  show ?case
  proof (cases "int attempt \<le> limit")
    case False
    then show ?thesis by (subst retryLoop.simps) simp
  next
    case True
    show ?thesis
    proof (cases outcome)
      case (Inr result)
      with True o sent show ?thesis by (subst retryLoop.simps) (simp add: Let_def)
    next
      case (Inl err)
      show ?thesis
      proof (cases "int attempt \<ge> limit")
        case last: True
        with True o sent Inl show ?thesis by (subst retryLoop.simps) (simp add: Let_def)
      next
        case False
        note ih = "1.IH" [OF True o [symmetric] refl Inl False "1.prems"]
        show ?thesis
          using True False o sent Inl ih
          by (subst retryLoop.simps) (simp add: Let_def)
      qed
    qed
  qed
qed
text \<open>
  Claim C3. Let the screenshot exist and let the merged options hold maxRetries = m with
  m at least 1. If the adapter fails in every attempt from 1 to m, evaluateScreenshot
  calls it exactly m times, waits 1000 * 2^(j-1) ms after each attempt j before the last,
  and throws the error of attempt m. If the adapter fails in the attempts before k and
  succeeds in attempt k, with k at most m, evaluateScreenshot calls it exactly k times and
  returns the result of attempt k.
\<close>

theorem C3_retry_attempts:
  assumes "maxRetries (mergedOptions config options) = Value m" and "1 \<le> m"
  shows
    "((\<forall>j. 1 \<le> j \<and> int j \<le> m \<longrightarrow> \<not> isOk (fst (failing (mergedOptions config options) j))) \<longrightarrow>
        \<not> isOk (fst (evaluateScreenshot pn config failing True path options))
        \<and> fst (evaluateScreenshot pn config failing True path options)
            = fst (failing (mergedOptions config options) (nat m))
        \<and> calls (snd (evaluateScreenshot pn config failing True path options)) = nat m
        \<and> sleeps (snd (evaluateScreenshot pn config failing True path options))
            = map (\<lambda>j. 1000 * 2 ^ (j - 1)) [1..<nat m])
     \<and> (1 \<le> k \<and> int k \<le> m
         \<and> (\<forall>j. 1 \<le> j \<and> j < k \<longrightarrow> \<not> isOk (fst (internal (mergedOptions config options) j)))
         \<and> fst (internal (mergedOptions config options) k) = Inr r \<longrightarrow>
           fst (evaluateScreenshot pn config internal True path options) = Inr r
           \<and> calls (snd (evaluateScreenshot pn config internal True path options)) = k
           \<and> sleeps (snd (evaluateScreenshot pn config internal True path options))
               = map (\<lambda>j. 1000 * 2 ^ (j - 1)) [1..<k])"
proof -
  let ?mo = "mergedOptions config options"
  have limit: "attemptLimit ?mo = m"
    using assms by (simp add: attemptLimit_def)
  have run: "\<And>f. evaluateScreenshot pn config f True path options
      = retryLoop pn (f ?mo) m 1 None noTrace"
    by (simp add: evaluateScreenshot_def limit)
  have down: "(\<forall>j. 1 \<le> j \<and> int j \<le> m \<longrightarrow> \<not> isOk (fst (failing ?mo j))) \<longrightarrow>
      \<not> isOk (fst (evaluateScreenshot pn config failing True path options))
      \<and> fst (evaluateScreenshot pn config failing True path options) = fst (failing ?mo (nat m))
      \<and> calls (snd (evaluateScreenshot pn config failing True path options)) = nat m
      \<and> sleeps (snd (evaluateScreenshot pn config failing True path options))
          = map (\<lambda>j. 1000 * 2 ^ (j - 1)) [1..<nat m]"
  proof
    assume fails: "\<forall>j. 1 \<le> j \<and> int j \<le> m \<longrightarrow> \<not> isOk (fst (failing ?mo j))"
    have first: "int 1 \<le> m" using assms(2) by simp
    have each: "\<And>j. 1 \<le> j \<Longrightarrow> int j \<le> m \<Longrightarrow> \<not> isOk (fst (failing ?mo j))"
      using fails by blast
    have last: "\<not> isOk (fst (failing ?mo (nat m)))"
      using fails assms(2) by simp
    from retry_all_fail [of 1 m "failing ?mo" pn None noTrace, OF first each] last
    show "\<not> isOk (fst (evaluateScreenshot pn config failing True path options))
      \<and> fst (evaluateScreenshot pn config failing True path options) = fst (failing ?mo (nat m))
      \<and> calls (snd (evaluateScreenshot pn config failing True path options)) = nat m
      \<and> sleeps (snd (evaluateScreenshot pn config failing True path options))
          = map (\<lambda>j. 1000 * 2 ^ (j - 1)) [1..<nat m]"
      unfolding run by (simp add: noTrace_def)
  qed
  have up: "1 \<le> k \<and> int k \<le> m
      \<and> (\<forall>j. 1 \<le> j \<and> j < k \<longrightarrow> \<not> isOk (fst (internal ?mo j)))
      \<and> fst (internal ?mo k) = Inr r \<longrightarrow>
        fst (evaluateScreenshot pn config internal True path options) = Inr r
        \<and> calls (snd (evaluateScreenshot pn config internal True path options)) = k
        \<and> sleeps (snd (evaluateScreenshot pn config internal True path options))
            = map (\<lambda>j. 1000 * 2 ^ (j - 1)) [1..<k]"
  proof
    assume h: "1 \<le> k \<and> int k \<le> m
      \<and> (\<forall>j. 1 \<le> j \<and> j < k \<longrightarrow> \<not> isOk (fst (internal ?mo j)))
      \<and> fst (internal ?mo k) = Inr r"
    then have k1: "1 \<le> k" and km: "int k \<le> m" and ok: "fst (internal ?mo k) = Inr r"
      by simp_all
    have before: "\<And>j. 1 \<le> j \<Longrightarrow> j < k \<Longrightarrow> \<not> isOk (fst (internal ?mo j))"
      using h by blast
    from retry_first_success [of 1 k m "internal ?mo" r pn None noTrace, OF k1 km before ok] k1
    show "fst (evaluateScreenshot pn config internal True path options) = Inr r
        \<and> calls (snd (evaluateScreenshot pn config internal True path options)) = k
        \<and> sleeps (snd (evaluateScreenshot pn config internal True path options))
            = map (\<lambda>j. 1000 * 2 ^ (j - 1)) [1..<k]"
      unfolding run by (simp add: noTrace_def)
  qed
  from down up show ?thesis by blast
qed

theorem C3_retry_attempts_witness:
  "maxRetries (mergedOptions sampleConfig (Some threeAttempts)) = Value 3 \<and> (1::int) \<le> 3
   \<and> \<not> isOk (fst (alwaysDown (mergedOptions sampleConfig (Some threeAttempts)) 1))
   \<and> \<not> isOk (fst (alwaysDown (mergedOptions sampleConfig (Some threeAttempts)) 2))
   \<and> \<not> isOk (fst (alwaysDown (mergedOptions sampleConfig (Some threeAttempts)) 3))
   \<and> (1::nat) \<le> 2 \<and> int 2 \<le> 3
   \<and> \<not> isOk (fst (upAtSecond (mergedOptions sampleConfig (Some threeAttempts)) 1))
   \<and> fst (upAtSecond (mergedOptions sampleConfig (Some threeAttempts)) 2) = Inr 7
   \<and> calls (snd (evaluateScreenshot ''OpenAI'' sampleConfig alwaysDown True ''shot.png''
                   (Some threeAttempts))) = 3
   \<and> sleeps (snd (evaluateScreenshot ''OpenAI'' sampleConfig alwaysDown True ''shot.png''
                   (Some threeAttempts))) = [1000, 2000]
   \<and> fst (evaluateScreenshot ''OpenAI'' sampleConfig alwaysDown True ''shot.png''
            (Some threeAttempts)) = Inl (Error ''down at attempt 3'')
   \<and> fst (evaluateScreenshot ''OpenAI'' sampleConfig upAtSecond True ''shot.png''
            (Some threeAttempts)) = Inr 7
   \<and> calls (snd (evaluateScreenshot ''OpenAI'' sampleConfig upAtSecond True ''shot.png''
                   (Some threeAttempts))) = 2"
proof -
  let ?mo = "mergedOptions sampleConfig (Some threeAttempts)"
  have m: "maxRetries ?mo = Value 3"
    by (simp add: mergedOptions_def threeAttempts_def spreadProp_def)
  have one: "(1::int) \<le> 3" by simp
  have down: "\<forall>j. 1 \<le> j \<and> int j \<le> 3 \<longrightarrow> \<not> isOk (fst (alwaysDown ?mo j))"
    by (simp add: alwaysDown_def isOk_def)
  have k: "(1::nat) \<le> 2 \<and> int 2 \<le> 3" by simp
  have before: "\<forall>j. 1 \<le> j \<and> j < 2 \<longrightarrow> \<not> isOk (fst (upAtSecond ?mo j))"
    by (simp add: upAtSecond_def isOk_def)
  have up: "fst (upAtSecond ?mo 2) = Inr 7"
    by (simp add: upAtSecond_def)
  have three: "showNat 3 = ''3''" by code_simp
  have upt: "map (\<lambda>j. 1000 * 2 ^ (j - Suc 0)) [Suc 0..<3] = [1000, 2000::nat]"
    by (simp add: upt_rec)
  from C3_retry_attempts [OF m one, of alwaysDown "''OpenAI''" "''shot.png''" 2 upAtSecond 7]
    down k before up
  show ?thesis
    using m by (simp add: alwaysDown_def upAtSecond_def isOk_def three upt)
qed

section \<open>The adapters\<close>

lemma trace_fields: "tr = \<lparr>calls = calls tr, requests = requests tr, sleeps = sleeps tr\<rparr>"
  by simp

lemma first_attempt_returns:
  "1 \<le> limit \<Longrightarrow> internal 1 = (Inr r, sent) \<Longrightarrow>
   retryLoop pn internal limit 1 le noTrace = (Inr r, \<lparr>calls = 1, requests = sent, sleeps = []\<rparr>)"
  by (subst retryLoop.simps) (simp add: noTrace_def)

lemma limit_of_maxRetries: "maxRetries opts = Value m \<Longrightarrow> 1 \<le> m \<Longrightarrow> attemptLimit opts = m"
  by (simp add: attemptLimit_def)

lemma limit_at_least_one: "maxRetries opts = Value m \<Longrightarrow> 0 \<le> m \<Longrightarrow> 1 \<le> attemptLimit opts"
  by (simp add: attemptLimit_def)

subsection \<open>The verdict of a reply\<close>

lemma verdict_of_reply:
  assumes "map_of members ''confidence'' \<noteq> None"
      and "buildResponse h opts raw (JObject members) = Inr r"
  shows "map_of members ''verdict'' = Some (JString ''yes'') \<Longrightarrow> verdictV r = Some (JString ''yes'')"
    and "map_of members ''verdict'' = None \<Longrightarrow> verdictV r = Some (JString ''no'')"
    and "map_of members ''verdict'' = Some v \<Longrightarrow> \<not> truthy v \<Longrightarrow> verdictV r = Some (JString ''no'')"
    and "map_of members ''verdict'' = Some v \<Longrightarrow> truthy v \<Longrightarrow> verdictV r = Some v"
  using assms by (auto simp: buildResponse_def orJson_def)

text \<open>
  Claim C2 at the reply \<^verbatim>\<open>{"confidence":0.9,"verdict":"maybe"}\<close>: the returned verdict is
  "maybe", which is neither "yes" nor "no", and the check with threshold 0.8 passes.
\<close>

theorem C2_maybe_is_returned:
  "normalizeReply sampleHost OpenAI threeAttempts ''{\"confidence\":0.9,\"verdict\":\"maybe\"}'' JNull
     = Inr \<lparr>confidenceV = Some (JNumber 0.9),
            reasoningV = Some (JString ''No reasoning provided''),
            verdictV = Some (JString ''maybe''), failReasonV = None, suggestionsV = None,
            rawResponseV = None\<rparr>
   \<and> asLLMResponse
        \<lparr>confidenceV = Some (JNumber 0.9),
         reasoningV = Some (JString ''No reasoning provided''),
         verdictV = Some (JString ''maybe''), failReasonV = None, suggestionsV = None,
         rawResponseV = None\<rparr>
       = Some \<lparr>verdict = ''maybe'', confidence = 0.9, failReason = None,
               reasoning = Some ''No reasoning provided'', suggestions = None,
               rawResponse = None\<rparr>
   \<and> isOk (assertThreshold sampleHost ''A page''
        \<lparr>verdict = ''maybe'', confidence = 0.9, failReason = None,
         reasoning = Some ''No reasoning provided'', suggestions = None, rawResponse = None\<rparr>
        0.8 ''shot.png'')"
  by (simp add: normalizeReply_def parseReply_def jsonText_def jsonMatch_def sampleHost_def
      buildResponse_def orJson_def rawIfAsked_def threeAttempts_def asLLMResponse_def
      assertThreshold_def isOk_def)

subsection \<open>The confidence of a reply\<close>

text \<open>
  What the adapters do with the confidence member of a parsed object: without one they
  return the degraded response (verdict "no", confidence 0, the reasoning "Invalid
  response format: ..."); with one they copy its value, and nothing looks at the range.
\<close>

lemma confidence_of_reply:
  "(map_of without ''confidence'' = None \<longrightarrow>
      buildResponse h opts raw (JObject without)
        = Inr (degraded (''Invalid response format: '' @ JSON_stringify h (JObject without))
                 (rawIfAsked opts raw)))
   \<and> (map_of members ''confidence'' = Some c \<longrightarrow>
        buildResponse h opts raw (JObject members)
          = Inr \<lparr>confidenceV = Some c,
                 reasoningV = Some (orJson (map_of members ''reasoning'')
                                      (JString ''No reasoning provided'')),
                 verdictV = Some (orJson (map_of members ''verdict'') (JString ''no'')),
                 failReasonV = map_of members ''failReason'',
                 suggestionsV = map_of members ''suggestions'',
                 rawResponseV = rawIfAsked opts raw\<rparr>)"
  by (simp add: buildResponse_def degraded_def)

text \<open>
  Claim C6 at the reply \<^verbatim>\<open>{"confidence":1.5,"verdict":"yes"}\<close>: the adapter does not
  return the degraded response. It returns the verdict "yes" with the confidence 1.5,
  which is not in [0,1], and the check with threshold 0.8 passes on it.
\<close>

theorem C6_out_of_range_returned:
  "normalizeReply sampleHost OpenAI threeAttempts ''{\"confidence\":1.5,\"verdict\":\"yes\"}'' JNull
     = Inr \<lparr>confidenceV = Some (JNumber 1.5),
            reasoningV = Some (JString ''No reasoning provided''),
            verdictV = Some (JString ''yes''), failReasonV = None, suggestionsV = None,
            rawResponseV = None\<rparr>
   \<and> \<not> ((0::real) \<le> 1.5 \<and> (1.5::real) \<le> 1)
   \<and> asLLMResponse
        \<lparr>confidenceV = Some (JNumber 1.5),
         reasoningV = Some (JString ''No reasoning provided''),
         verdictV = Some (JString ''yes''), failReasonV = None, suggestionsV = None,
         rawResponseV = None\<rparr>
       = Some \<lparr>verdict = ''yes'', confidence = 1.5, failReason = None,
               reasoning = Some ''No reasoning provided'', suggestions = None,
               rawResponse = None\<rparr>
   \<and> isOk (assertThreshold sampleHost ''A page''
        \<lparr>verdict = ''yes'', confidence = 1.5, failReason = None,
         reasoning = Some ''No reasoning provided'', suggestions = None, rawResponse = None\<rparr>
        0.8 ''shot.png'')"
  by (simp add: normalizeReply_def parseReply_def jsonText_def jsonMatch_def sampleHost_def
      buildResponse_def orJson_def rawIfAsked_def threeAttempts_def asLLMResponse_def
      assertThreshold_def isOk_def)

subsection \<open>Replies that are not the expected object\<close>

lemma unparseable_reply:
  "JSON_parse h (jsonText content) = None \<Longrightarrow>
   normalizeReply h kind opts content data
     = Inr (degraded (''Error parsing response: '' @ content)
              (rawIfAsked opts (rawOf kind content data)))"
  by (simp add: normalizeReply_def parseReply_def parseErrorObject_def buildResponse_def
      degraded_def orJson_def)

lemma array_reply:
  "JSON_parse h (jsonText content) = Some (JArray xs) \<Longrightarrow>
   normalizeReply h kind opts content data
     = Inr (degraded (''Invalid response format: '' @ JSON_stringify h (JArray xs))
              (rawIfAsked opts (rawOf kind content data)))"
  by (simp add: normalizeReply_def parseReply_def buildResponse_def degraded_def)

text \<open>
  A reply that parses to \<open>null\<close>, a boolean, a number or a string makes the \<^verbatim>\<open>in\<close>
  operator throw; the error leaves the adapter like any other.
\<close>

lemma primitive_reply_throws:
  "JSON_parse h (jsonText content) = Some v \<Longrightarrow>
   v = JNull \<or> v = JBool b \<or> v = JNumber x \<or> v = JString s \<Longrightarrow>
   normalizeReply h kind opts content data
     = Inl (TypeError ''Cannot use the in operator on a primitive value'')"
  by (auto simp: normalizeReply_def parseReply_def buildResponse_def)

lemma answered_at_once:
  assumes "access w path" and "readFile w path = Inr picture" and "picture \<noteq> []"
      and "truthyString (apiKey (providerConfig kind (env w) config))
           \<or> getApiKey (env w) (apiKeyVariable kind) \<noteq> None"
      and "fetch w 1 = Replied content data"
      and "normalizeReply h kind (mergedOptions (providerConfig kind (env w) config) options)
             content data = Inr r"
      and "1 \<le> attemptLimit (mergedOptions (providerConfig kind (env w) config) options)"
  shows "providerEvaluateScreenshot h w kind config path spec options
           = (Inr r, \<lparr>calls = 1, requests = 1, sleeps = []\<rparr>)"
proof -
  let ?cfg = "providerConfig kind (env w) config"
  let ?mo = "mergedOptions ?cfg options"
  have step: "evaluateScreenshotInternal h w kind ?cfg path spec ?mo 1 = (Inr r, 1)"
    using assms(2-6) by (auto simp: evaluateScreenshotInternal_def)
  have "retryLoop (providerName kind) (evaluateScreenshotInternal h w kind ?cfg path spec ?mo)
          (attemptLimit ?mo) 1 None noTrace
        = (Inr r, \<lparr>calls = 1, requests = 1, sleeps = []\<rparr>)"
    using assms(7) step
    by (rule first_attempt_returns
        [where internal = "evaluateScreenshotInternal h w kind ?cfg path spec ?mo"])
  then show ?thesis
    using assms(1) by (simp add: providerEvaluateScreenshot_def evaluateScreenshot_def)
qed

text \<open>
  Claim C5 (as amended). When \<open>JSON.parse\<close> throws on the reply text (on its part from
  the first opening to the last closing brace, if there is one), normalization returns
  the degraded response with the reasoning "Error parsing response: " and the raw text.
  When the reply parses to an array, it returns the degraded response with the reasoning
  "Invalid response format: " and \<open>JSON.stringify\<close> of the array. Neither throws. A
  response that normalization returns in the first attempt is the result of
  evaluateScreenshot after one call and one request, with no retry.
\<close>

theorem C5_degraded_reply:
  "(JSON_parse h (jsonText garbage) = None \<longrightarrow>
      normalizeReply h kind opts garbage data
        = Inr (degraded (''Error parsing response: '' @ garbage)
                 (rawIfAsked opts (rawOf kind garbage data))))
   \<and> (JSON_parse h (jsonText listing) = Some (JArray xs) \<longrightarrow>
        normalizeReply h kind opts listing data
          = Inr (degraded (''Invalid response format: '' @ JSON_stringify h (JArray xs))
                   (rawIfAsked opts (rawOf kind listing data))))
   \<and> (access w path \<and> readFile w path = Inr picture \<and> picture \<noteq> []
        \<and> (truthyString (apiKey (providerConfig kind (env w) config))
             \<or> getApiKey (env w) (apiKeyVariable kind) \<noteq> None)
        \<and> fetch w 1 = Replied content body
        \<and> normalizeReply h kind (mergedOptions (providerConfig kind (env w) config) options)
             content body = Inr r
        \<and> 1 \<le> attemptLimit (mergedOptions (providerConfig kind (env w) config) options) \<longrightarrow>
          providerEvaluateScreenshot h w kind config path spec options
            = (Inr r, \<lparr>calls = 1, requests = 1, sleeps = []\<rparr>))"
proof -
  have a: "JSON_parse h (jsonText garbage) = None \<longrightarrow>
      normalizeReply h kind opts garbage data
        = Inr (degraded (''Error parsing response: '' @ garbage)
                 (rawIfAsked opts (rawOf kind garbage data)))"
    by (simp add: unparseable_reply)
  have b: "JSON_parse h (jsonText listing) = Some (JArray xs) \<longrightarrow>
        normalizeReply h kind opts listing data
          = Inr (degraded (''Invalid response format: '' @ JSON_stringify h (JArray xs))
                   (rawIfAsked opts (rawOf kind listing data)))"
    by (simp add: array_reply)
  have c: "access w path \<and> readFile w path = Inr picture \<and> picture \<noteq> []
        \<and> (truthyString (apiKey (providerConfig kind (env w) config))
             \<or> getApiKey (env w) (apiKeyVariable kind) \<noteq> None)
        \<and> fetch w 1 = Replied content body
        \<and> normalizeReply h kind (mergedOptions (providerConfig kind (env w) config) options)
             content body = Inr r
        \<and> 1 \<le> attemptLimit (mergedOptions (providerConfig kind (env w) config) options) \<longrightarrow>
          providerEvaluateScreenshot h w kind config path spec options
            = (Inr r, \<lparr>calls = 1, requests = 1, sleeps = []\<rparr>)"
    using answered_at_once [of w path picture kind config content body h options r spec]
    by blast
  from a b c show ?thesis by blast
qed

theorem C5_degraded_reply_witness:
  "JSON_parse sampleHost (jsonText ''I cannot tell.'') = None
   \<and> JSON_parse sampleHost (jsonText ''[1, 2]'') = Some (JArray [JNumber 1, JNumber 2])
   \<and> access (replyingWorld ''I cannot tell.'') ''shot.png''
   \<and> readFile (replyingWorld ''I cannot tell.'') ''shot.png'' = Inr ''iVBORw0KGgo=''
   \<and> ''iVBORw0KGgo='' \<noteq> []
   \<and> getApiKey (env (replyingWorld ''I cannot tell.'')) (apiKeyVariable OpenAI) \<noteq> None
   \<and> fetch (replyingWorld ''I cannot tell.'') 1 = Replied ''I cannot tell.'' JNull
   \<and> 1 \<le> attemptLimit
            (mergedOptions (providerConfig OpenAI (env (replyingWorld ''I cannot tell.''))
               sampleConfig) (Some threeAttempts))
   \<and> normalizeReply sampleHost OpenAI threeAttempts ''[1, 2]'' JNull
       = Inr (degraded ''Invalid response format: [1,2]'' None)
   \<and> providerEvaluateScreenshot sampleHost (replyingWorld ''I cannot tell.'') OpenAI sampleConfig
        ''shot.png'' ''A page'' (Some threeAttempts)
       = (Inr (degraded ''Error parsing response: I cannot tell.'' None),
          \<lparr>calls = 1, requests = 1, sleeps = []\<rparr>)"
proof -
  let ?w = "replyingWorld ''I cannot tell.''"
  let ?mo = "mergedOptions (providerConfig OpenAI (env ?w) sampleConfig) (Some threeAttempts)"
  have mo: "?mo = threeAttempts"
    by (simp add: mergedOptions_def threeAttempts_def spreadProp_def)
  have garbage: "JSON_parse sampleHost (jsonText ''I cannot tell.'') = None"
    by (simp add: jsonText_def jsonMatch_def sampleHost_def)
  have listing: "JSON_parse sampleHost (jsonText ''[1, 2]'') = Some (JArray [JNumber 1, JNumber 2])"
    by (simp add: jsonText_def jsonMatch_def sampleHost_def)
  have world: "access ?w ''shot.png''" "readFile ?w ''shot.png'' = Inr ''iVBORw0KGgo=''"
    "''iVBORw0KGgo='' \<noteq> []" "getApiKey (env ?w) (apiKeyVariable OpenAI) \<noteq> None"
    "fetch ?w 1 = Replied ''I cannot tell.'' JNull"
    by (simp_all add: replyingWorld_def getApiKey_def)
  have limit: "1 \<le> attemptLimit ?mo"
    unfolding mo by (simp add: attemptLimit_def threeAttempts_def)
  have raw: "rawIfAsked threeAttempts v = None" for v
    by (simp add: rawIfAsked_def threeAttempts_def)
  have printed: "JSON_stringify sampleHost (JArray [JNumber 1, JNumber 2]) = ''[1,2]''"
    by (simp add: sampleHost_def)
  note c5 = C5_degraded_reply
    [where h = sampleHost and garbage = "''I cannot tell.''" and listing = "''[1, 2]''"
       and xs = "[JNumber 1, JNumber 2]" and kind = OpenAI and opts = threeAttempts
       and data = JNull and w = "?w" and path = "''shot.png''" and picture = "''iVBORw0KGgo=''"
       and config = sampleConfig and content = "''I cannot tell.''" and body = JNull
       and options = "Some threeAttempts"
       and r = "degraded ''Error parsing response: I cannot tell.'' None"
       and spec = "''A page''"]
  from c5 garbage have first: "normalizeReply sampleHost OpenAI threeAttempts ''I cannot tell.'' JNull
      = Inr (degraded ''Error parsing response: I cannot tell.'' None)"
    by (simp add: raw)
  from c5 listing have second: "normalizeReply sampleHost OpenAI threeAttempts ''[1, 2]'' JNull
      = Inr (degraded ''Invalid response format: [1,2]'' None)"
    by (simp add: raw printed)
  from first have norm: "normalizeReply sampleHost OpenAI ?mo ''I cannot tell.'' JNull
      = Inr (degraded ''Error parsing response: I cannot tell.'' None)"
    unfolding mo .
  from c5 world limit norm
  have third: "providerEvaluateScreenshot sampleHost ?w OpenAI sampleConfig
        ''shot.png'' ''A page'' (Some threeAttempts)
       = (Inr (degraded ''Error parsing response: I cannot tell.'' None),
          \<lparr>calls = 1, requests = 1, sleeps = []\<rparr>)"
    by blast
  from garbage listing world limit second third show ?thesis by blast
qed

text \<open>
  Claim C5 as stated fails at the reply text \<^verbatim>\<open>[1, 2]\<close>, from which no JSON object can be
  parsed: the reasoning of the degraded response is "Invalid response format: [1,2]",
  which does not contain the raw reply text.
\<close>

theorem C5_reasoning_without_raw_text:
  "normalizeReply sampleHost OpenAI threeAttempts ''[1, 2]'' JNull
     = Inr (degraded ''Invalid response format: [1,2]'' None)
   \<and> \<not> sublist ''[1, 2]'' ''Invalid response format: [1,2]''"
proof -
  have "JSON_parse sampleHost (jsonText ''[1, 2]'') = Some (JArray [JNumber 1, JNumber 2])"
    by (simp add: jsonText_def jsonMatch_def sampleHost_def)
  then have "normalizeReply sampleHost OpenAI threeAttempts ''[1, 2]'' JNull
     = Inr (degraded ''Invalid response format: [1,2]'' None)"
    by (simp add: array_reply rawIfAsked_def threeAttempts_def sampleHost_def)
  moreover have "\<not> sublist ''[1, 2]'' ''Invalid response format: [1,2]''"
    by code_simp
  ultimately show ?thesis by blast
qed
text \<open>
  The reply text \<^verbatim>\<open>42\<close> with maxRetries = 3: three calls, three requests, and the
  TypeError in the end.
\<close>

lemma number_reply_is_retried:
  "providerEvaluateScreenshot sampleHost (replyingWorld ''42'') OpenAI sampleConfig ''shot.png''
     ''A page'' (Some threeAttempts)
   = (Inl (TypeError ''Cannot use the in operator on a primitive value''),
      \<lparr>calls = 3, requests = 3, sleeps = [1000, 2000]\<rparr>)"
proof -
  let ?w = "replyingWorld ''42''"
  let ?cfg = "providerConfig OpenAI (env ?w) sampleConfig"
  have mo: "mergedOptions ?cfg (Some threeAttempts) = threeAttempts"
    by (simp add: mergedOptions_def threeAttempts_def spreadProp_def)
  have parsed: "JSON_parse sampleHost (jsonText ''42'') = Some (JNumber 42)"
    by (simp add: jsonText_def jsonMatch_def sampleHost_def)
  have thrown: "normalizeReply sampleHost OpenAI threeAttempts ''42'' JNull
      = Inl (TypeError ''Cannot use the in operator on a primitive value'')"
    using primitive_reply_throws [OF parsed, of False 42 "[]"] by simp
  have each: "evaluateScreenshotInternal sampleHost ?w OpenAI ?cfg ''shot.png'' ''A page''
      threeAttempts j = (Inl (TypeError ''Cannot use the in operator on a primitive value''), 1)"
    for j
    by (simp add: evaluateScreenshotInternal_def replyingWorld_def getApiKey_def thrown)
  have limit: "attemptLimit threeAttempts = 3"
    by (simp add: attemptLimit_def threeAttempts_def)
  have "retryLoop ''OpenAI''
      (evaluateScreenshotInternal sampleHost ?w OpenAI ?cfg ''shot.png'' ''A page'' threeAttempts)
      3 1 None noTrace
    = (Inl (TypeError ''Cannot use the in operator on a primitive value''),
       \<lparr>calls = 3, requests = 3, sleeps = [1000, 2000]\<rparr>)"
    apply (subst retryLoop.simps, simp add: each noTrace_def)
    apply (subst retryLoop.simps, simp add: each)
    apply (subst retryLoop.simps, simp add: each)
    done
  moreover have "access ?w ''shot.png''"
    by (simp add: replyingWorld_def)
  ultimately show ?thesis
    by (simp add: providerEvaluateScreenshot_def evaluateScreenshot_def mo limit)
qed

subsection \<open>A missing credential\<close>

lemma missing_key_attempt:
  assumes "readFile w path = Inr picture" and "picture \<noteq> []"
      and "\<not> truthyString (apiKey cfg)" and "getApiKey (env w) (apiKeyVariable kind) = None"
  shows "evaluateScreenshotInternal h w kind cfg path spec opts attempt
           = (Inl (Error (missingKeyMessage kind)), 0)"
  using assms by (simp add: evaluateScreenshotInternal_def)

lemma missing_key_run:
  assumes "access w path" and "readFile w path = Inr picture" and "picture \<noteq> []"
      and "\<not> truthyString (apiKey (providerConfig kind (env w) config))"
      and "getApiKey (env w) (apiKeyVariable kind) = None"
      and "1 \<le> attemptLimit (mergedOptions (providerConfig kind (env w) config) options)"
  shows "providerEvaluateScreenshot h w kind config path spec options
           = (Inl (Error (missingKeyMessage kind)),
              \<lparr>calls = nat (attemptLimit (mergedOptions (providerConfig kind (env w) config) options)),
               requests = 0,
               sleeps = map (\<lambda>j. 1000 * 2 ^ (j - 1))
                 [1..<nat (attemptLimit (mergedOptions (providerConfig kind (env w) config) options))]\<rparr>)"
proof -
  let ?cfg = "providerConfig kind (env w) config"
  let ?mo = "mergedOptions ?cfg options"
  let ?internal = "evaluateScreenshotInternal h w kind ?cfg path spec ?mo"
  let ?run = "retryLoop (providerName kind) ?internal (attemptLimit ?mo) 1 None noTrace"
  have each: "?internal j = (Inl (Error (missingKeyMessage kind)), 0)" for j
    using assms(2-5) by (rule missing_key_attempt)
  have first: "int 1 \<le> attemptLimit ?mo" using assms(6) by simp
  have fails: "\<And>j. 1 \<le> j \<Longrightarrow> int j \<le> attemptLimit ?mo \<Longrightarrow> \<not> isOk (fst (?internal j))"
    by (simp add: each isOk_def)
  have sent: "\<And>j. snd (?internal j) = 0"
    by (simp add: each)
  from retry_all_fail [where internal = ?internal and pn = "providerName kind" and le = None
      and tr = noTrace, OF first fails]
  have outcome: "fst ?run = Inl (Error (missingKeyMessage kind))"
    and count: "calls (snd ?run) = nat (attemptLimit ?mo)"
    and waits: "sleeps (snd ?run) = map (\<lambda>j. 1000 * 2 ^ (j - 1)) [1..<nat (attemptLimit ?mo)]"
    by (simp_all add: each noTrace_def)
  from retry_no_requests [where internal = ?internal and pn = "providerName kind" and le = None
      and tr = noTrace and limit = "attemptLimit ?mo" and attempt = 1, OF sent]
  have none: "requests (snd ?run) = 0"
    by (simp add: noTrace_def)
  have "snd ?run = \<lparr>calls = nat (attemptLimit ?mo), requests = 0,
      sleeps = map (\<lambda>j. 1000 * 2 ^ (j - 1)) [1..<nat (attemptLimit ?mo)]\<rparr>"
    using trace_fields [of "snd ?run"] count waits none by simp
  with outcome have "?run = (Inl (Error (missingKeyMessage kind)),
      \<lparr>calls = nat (attemptLimit ?mo), requests = 0,
       sleeps = map (\<lambda>j. 1000 * 2 ^ (j - 1)) [1..<nat (attemptLimit ?mo)]\<rparr>)"
    by (simp add: prod_eq_iff)
  then show ?thesis
    using assms(1) by (simp add: providerEvaluateScreenshot_def evaluateScreenshot_def)
qed

lemma keyless_facts:
  "access keylessWorld ''shot.png''"
  "readFile keylessWorld ''shot.png'' = Inr ''iVBORw0KGgo=''"
  "''iVBORw0KGgo='' \<noteq> []"
  "\<not> truthyString (apiKey (providerConfig OpenAI (env keylessWorld) sampleConfig))"
  "getApiKey (env keylessWorld) (apiKeyVariable OpenAI) = None"
  "attemptLimit (mergedOptions (providerConfig OpenAI (env keylessWorld) sampleConfig)
     (Some threeAttempts)) = 3"
  by (simp_all add: keylessWorld_def replyingWorld_def providerConfig_def validateConfig_def
      sampleConfig_def truthyString_def getApiKey_def attemptLimit_def mergedOptions_def
      threeAttempts_def spreadProp_def)

lemma three_delays: "map (\<lambda>j. 1000 * 2 ^ (j - Suc 0)) [Suc 0..<3] = [1000, 2000::nat]"
  by (simp add: upt_rec)

text \<open>
  Claim C4 (as amended). When the screenshot can be read and neither the configuration
  nor the environment variable of the adapter holds a key, every call of the adapter
  throws the missing-key error before any request is sent. The retry loop treats this
  error like every other: evaluateScreenshot makes (maxRetries || 1) attempts, waits
  between them, sends no request at all, and throws the missing-key error in the end.
\<close>

theorem C4_missing_key_retried:
  assumes "access w path" and "readFile w path = Inr picture" and "picture \<noteq> []"
      and "\<not> truthyString (apiKey (providerConfig kind (env w) config))"
      and "getApiKey (env w) (apiKeyVariable kind) = None"
      and "1 \<le> attemptLimit (mergedOptions (providerConfig kind (env w) config) options)"
  shows "evaluateScreenshotInternal h w kind (providerConfig kind (env w) config) path spec opts
           attempt = (Inl (Error (missingKeyMessage kind)), 0)
         \<and> providerEvaluateScreenshot h w kind config path spec options
           = (Inl (Error (missingKeyMessage kind)),
              \<lparr>calls = nat (attemptLimit (mergedOptions (providerConfig kind (env w) config) options)),
               requests = 0,
               sleeps = map (\<lambda>j. 1000 * 2 ^ (j - 1))
                 [1..<nat (attemptLimit (mergedOptions (providerConfig kind (env w) config) options))]\<rparr>)"
  using missing_key_attempt [OF assms(2-5)] missing_key_run [OF assms] by simp

theorem C4_missing_key_retried_witness:
  "access keylessWorld ''shot.png''
   \<and> readFile keylessWorld ''shot.png'' = Inr ''iVBORw0KGgo='' \<and> ''iVBORw0KGgo='' \<noteq> []
   \<and> \<not> truthyString (apiKey (providerConfig OpenAI (env keylessWorld) sampleConfig))
   \<and> getApiKey (env keylessWorld) (apiKeyVariable OpenAI) = None
   \<and> 1 \<le> attemptLimit (mergedOptions (providerConfig OpenAI (env keylessWorld) sampleConfig)
               (Some threeAttempts))
   \<and> snd (providerEvaluateScreenshot sampleHost keylessWorld OpenAI sampleConfig ''shot.png''
            ''A page'' (Some threeAttempts))
       = \<lparr>calls = 3, requests = 0, sleeps = [1000, 2000]\<rparr>"
proof -
  have limit: "1 \<le> attemptLimit (mergedOptions (providerConfig OpenAI (env keylessWorld) sampleConfig)
               (Some threeAttempts))"
    by (simp add: keyless_facts(6))
  from C4_missing_key_retried [OF keyless_facts(1-5) limit, of sampleHost "''A page''"]
  show ?thesis
    using keyless_facts(1-5) limit by (simp add: keyless_facts(6) three_delays)
qed

text \<open>
  Claim C4 as stated fails: with no key and maxRetries = 3 the adapter is called three
  times, with delays of 1000 and 2000 ms, before the missing-key error is thrown.
\<close>

theorem C4_missing_key_three_calls:
  "providerEvaluateScreenshot sampleHost keylessWorld OpenAI sampleConfig ''shot.png'' ''A page''
     (Some threeAttempts)
   = (Inl (Error ''No OpenAI API key provided. Please check your environment variables.''),
      \<lparr>calls = 3, requests = 0, sleeps = [1000, 2000]\<rparr>)"
proof -
  have limit: "1 \<le> attemptLimit (mergedOptions (providerConfig OpenAI (env keylessWorld) sampleConfig)
               (Some threeAttempts))"
    by (simp add: keyless_facts(6))
  from missing_key_run [OF keyless_facts(1-5) limit, of sampleHost "''A page''"]
  show ?thesis
    by (simp add: keyless_facts(6) three_delays)
qed

section \<open>Merging the option layers\<close>

lemma map_of_spread_step:
  "map_of (foldl (\<lambda>acc (k, v). mapSet k v acc) a b) key
     = (case map_of (rev b) key of Some v \<Rightarrow> Some v | None \<Rightarrow> map_of a key)"
proof (induction b arbitrary: a)
  case Nil
  show ?case by simp
next
  case (Cons p b)
  obtain k v where p: "p = (k, v)" by (cases p)
  show ?case
    by (simp add: p Cons map_of_mapSet map_add_def split: option.splits)
qed

lemma map_of_rev_distinct: "distinct (map fst xs) \<Longrightarrow> map_of (rev xs) = map_of xs"
  by (simp add: distinct_map map_of_inject_set)

lemma map_of_spread:
  "distinct (map fst b) \<Longrightarrow>
   map_of (spread a b) key = (case map_of b key of Some v \<Rightarrow> Some v | None \<Rightarrow> map_of a key)"
  by (simp add: spread_def map_of_spread_step map_of_rev_distinct)

lemma ownProps_distinct: "wellFormed st \<Longrightarrow> distinct (map fst (ownProps st v))"
  by (cases v) (auto simp: ownProps_def objectAt_def wellFormed_def list_all_iff)

lemma getProp_ownProps:
  "getProp st v key = (case map_of (ownProps st v) key of Some x \<Rightarrow> x | None \<Rightarrow> VUndefined)"
  by (cases v) (simp_all add: getProp_def ownProps_def)

lemma getProp_ref:
  "getProp st (VRef a) key
     = (case map_of (objectAt st a) key of Some x \<Rightarrow> x | None \<Rightarrow> VUndefined)"
  by (simp add: getProp_def)

text \<open>The three objects that the two merges put behind the store, and nothing else.\<close>

lemma mergeLayers_result:
  "mergeLayers st options session config =
     (length st + 2,
      st @ [spread (spread [] (ownProps st (getProp st (VRef session) ''modelParameters'')))
              (ownProps st (getProp st options ''modelParameters'')),
            [(''confidenceThreshold'',
                coalesce (getProp st options ''confidenceThreshold'')
                  (getProp st (VRef session) ''confidenceThreshold'')),
             (''includeRawResponse'',
                coalesce (getProp st options ''includeRawResponse'')
                  (getProp st (VRef session) ''includeRawResponse'')),
             (''maxRetries'',
                coalesce (getProp st options ''maxRetries'') (getProp st (VRef session) ''maxRetries'')),
             (''modelParameters'', VRef (length st))],
            [(''confidenceThreshold'',
                coalesce (getProp st options ''confidenceThreshold'')
                  (getProp st (VRef session) ''confidenceThreshold'')),
             (''maxRetries'',
                coalesce (getProp st options ''maxRetries'') (getProp st (VRef session) ''maxRetries'')),
             (''includeRawResponse'',
                coalesce (getProp st options ''includeRawResponse'')
                  (getProp st (VRef session) ''includeRawResponse'')),
             (''modelParameters'', VRef (length st))]])"
  by (simp add: mergeLayers_def evaluationOptionsObject_def mergedOptionsObject_def alloc_def
      Let_def ownProps_def objectAt_def nth_append spread_def)

text \<open>
  Claim C8. In a well-formed store, let an options object of a check (or \<open>undefined\<close>),
  the evaluation part of the session configuration and the provider configuration be
  merged as a check does. (1) Every object that was in the store is unchanged: the
  merges only add objects. (2) For confidenceThreshold, maxRetries and
  includeRawResponse the merged options hold the value of the check when it is neither
  \<open>undefined\<close> nor \<open>null\<close>, and the value of the session otherwise, whatever defaults
  the provider configuration holds. (3) The merged modelParameters are a new object that
  holds, for every key, the value of the check when the check has the key, and the value
  of the session otherwise.
\<close>

theorem C8_merged_layers:
  assumes "wellFormed st"
  shows
    "take (length st) (snd (mergeLayers st options session config)) = st
     \<and> (key \<in> {''confidenceThreshold'', ''maxRetries'', ''includeRawResponse''}
         \<and> getProp st options key \<noteq> VUndefined \<and> getProp st options key \<noteq> VNull \<longrightarrow>
           getProp (snd (mergeLayers st options session config))
             (VRef (fst (mergeLayers st options session config))) key
           = getProp st options key)
     \<and> (unset \<in> {''confidenceThreshold'', ''maxRetries'', ''includeRawResponse''}
         \<and> (getProp st options unset = VUndefined \<or> getProp st options unset = VNull) \<longrightarrow>
           getProp (snd (mergeLayers st options session config))
             (VRef (fst (mergeLayers st options session config))) unset
           = getProp st (VRef session) unset)
     \<and> getProp (snd (mergeLayers st options session config))
           (VRef (fst (mergeLayers st options session config))) ''modelParameters''
         = VRef (length st)
     \<and> (map_of (ownProps st (getProp st options ''modelParameters'')) parameter = Some v \<longrightarrow>
          getProp (snd (mergeLayers st options session config)) (VRef (length st)) parameter = v)
     \<and> (map_of (ownProps st (getProp st options ''modelParameters'')) other = None \<longrightarrow>
          getProp (snd (mergeLayers st options session config)) (VRef (length st)) other
          = getProp st (getProp st (VRef session) ''modelParameters'') other)"
proof -
  let ?ml = "mergeLayers st options session config"
  let ?per = "ownProps st (getProp st options ''modelParameters'')"
  have frame: "take (length st) (snd ?ml) = st"
    by (simp add: mergeLayers_result)
  have merged: "objectAt (snd ?ml) (fst ?ml) =
      [(''confidenceThreshold'',
          coalesce (getProp st options ''confidenceThreshold'')
            (getProp st (VRef session) ''confidenceThreshold'')),
       (''maxRetries'',
          coalesce (getProp st options ''maxRetries'') (getProp st (VRef session) ''maxRetries'')),
       (''includeRawResponse'',
          coalesce (getProp st options ''includeRawResponse'')
            (getProp st (VRef session) ''includeRawResponse'')),
       (''modelParameters'', VRef (length st))]"
    by (simp add: mergeLayers_result objectAt_def nth_append)
  have scalar: "k \<in> {''confidenceThreshold'', ''maxRetries'', ''includeRawResponse''} \<Longrightarrow>
      getProp (snd ?ml) (VRef (fst ?ml)) k
        = coalesce (getProp st options k) (getProp st (VRef session) k)" for k
    by (auto simp: getProp_ref merged)
  have check_wins: "key \<in> {''confidenceThreshold'', ''maxRetries'', ''includeRawResponse''}
      \<and> getProp st options key \<noteq> VUndefined \<and> getProp st options key \<noteq> VNull \<longrightarrow>
        getProp (snd ?ml) (VRef (fst ?ml)) key = getProp st options key"
    using scalar [of key] by (auto simp: coalesce_def)
  have session_wins: "unset \<in> {''confidenceThreshold'', ''maxRetries'', ''includeRawResponse''}
      \<and> (getProp st options unset = VUndefined \<or> getProp st options unset = VNull) \<longrightarrow>
        getProp (snd ?ml) (VRef (fst ?ml)) unset = getProp st (VRef session) unset"
    using scalar [of unset] by (auto simp: coalesce_def)
  have fresh: "getProp (snd ?ml) (VRef (fst ?ml)) ''modelParameters'' = VRef (length st)"
    by (simp add: getProp_ref merged)
  define per where "per = ownProps st (getProp st options ''modelParameters'')"
  define ses where "ses = ownProps st (getProp st (VRef session) ''modelParameters'')"
  have parameters: "objectAt (snd ?ml) (length st) = spread (spread [] ses) per"
    by (simp add: mergeLayers_result objectAt_def nth_append per_def ses_def)
  have dper: "distinct (map fst per)" and dses: "distinct (map fst ses)"
    using assms by (simp_all add: ownProps_distinct per_def ses_def)
  have lookup: "map_of (spread (spread [] ses) per) k
      = (case map_of per k of Some x \<Rightarrow> Some x | None \<Rightarrow> map_of ses k)" for k
    by (simp add: map_of_spread dper dses split: option.splits)
  have read: "getProp (snd ?ml) (VRef (length st)) k
      = (case map_of per k of
           Some x \<Rightarrow> x
         | None \<Rightarrow> (case map_of ses k of Some x \<Rightarrow> x | None \<Rightarrow> VUndefined))" for k
    unfolding getProp_ref parameters lookup by (simp split: option.splits)
  have old: "getProp st (getProp st (VRef session) ''modelParameters'') k
      = (case map_of ses k of Some x \<Rightarrow> x | None \<Rightarrow> VUndefined)" for k
    unfolding ses_def by (rule getProp_ownProps)
  have from_check: "map_of ?per parameter = Some v \<longrightarrow>
      getProp (snd ?ml) (VRef (length st)) parameter = v"
    unfolding read per_def [symmetric] by simp
  have from_session: "map_of ?per other = None \<longrightarrow>
      getProp (snd ?ml) (VRef (length st)) other
      = getProp st (getProp st (VRef session) ''modelParameters'') other"
    unfolding read old per_def [symmetric] by simp
  from frame check_wins session_wins fresh from_check from_session show ?thesis by blast
qed

lemma sampleStore_wellFormed: "wellFormed sampleStore"
  by (simp add: wellFormed_def sampleStore_def)

theorem C8_merged_layers_witness:
  "wellFormed sampleStore
   \<and> ''confidenceThreshold'' \<in> {''confidenceThreshold'', ''maxRetries'', ''includeRawResponse''}
   \<and> getProp sampleStore (VRef 0) ''confidenceThreshold'' = VNum 0.5
   \<and> ''maxRetries'' \<in> {''confidenceThreshold'', ''maxRetries'', ''includeRawResponse''}
   \<and> getProp sampleStore (VRef 0) ''maxRetries'' = VUndefined
   \<and> map_of (ownProps sampleStore (getProp sampleStore (VRef 0) ''modelParameters''))
         ''temperature'' = Some (VNum 0)
   \<and> map_of (ownProps sampleStore (getProp sampleStore (VRef 0) ''modelParameters''))
         ''seed'' = None
   \<and> take (length sampleStore) (snd (mergeLayers sampleStore (VRef 0) 2 4)) = sampleStore
   \<and> getProp (snd (mergeLayers sampleStore (VRef 0) 2 4))
         (VRef (fst (mergeLayers sampleStore (VRef 0) 2 4))) ''confidenceThreshold'' = VNum 0.5
   \<and> getProp (snd (mergeLayers sampleStore (VRef 0) 2 4))
         (VRef (fst (mergeLayers sampleStore (VRef 0) 2 4))) ''maxRetries'' = VNum 2
   \<and> getProp (snd (mergeLayers sampleStore (VRef 0) 2 4)) (VRef (length sampleStore))
         ''temperature'' = VNum 0
   \<and> getProp (snd (mergeLayers sampleStore (VRef 0) 2 4)) (VRef (length sampleStore))
         ''seed'' = VNum 7"
proof -
  have keys: "''confidenceThreshold'' \<in> {''confidenceThreshold'', ''maxRetries'', ''includeRawResponse''}"
    "''maxRetries'' \<in> {''confidenceThreshold'', ''maxRetries'', ''includeRawResponse''}"
    by simp_all
  have given: "getProp sampleStore (VRef 0) ''confidenceThreshold'' = VNum 0.5"
    and unset: "getProp sampleStore (VRef 0) ''maxRetries'' = VUndefined"
    and session: "getProp sampleStore (VRef 2) ''maxRetries'' = VNum 2"
    by (simp_all add: getProp_def objectAt_def sampleStore_def)
  have cool: "map_of (ownProps sampleStore (getProp sampleStore (VRef 0) ''modelParameters''))
         ''temperature'' = Some (VNum 0)"
    and seedless: "map_of (ownProps sampleStore (getProp sampleStore (VRef 0) ''modelParameters''))
         ''seed'' = None"
    and seed: "getProp sampleStore (getProp sampleStore (VRef 2) ''modelParameters'')
         ''seed'' = VNum 7"
    by (simp_all add: getProp_def ownProps_def objectAt_def sampleStore_def)
  from C8_merged_layers [OF sampleStore_wellFormed,
      where options = "VRef 0" and session = 2 and config = 4
        and key = "''confidenceThreshold''" and unset = "''maxRetries''"
        and parameter = "''temperature''" and v = "VNum 0" and other = "''seed''"]
    keys given unset session cool seedless seed
  have "take (length sampleStore) (snd (mergeLayers sampleStore (VRef 0) 2 4)) = sampleStore
    \<and> getProp (snd (mergeLayers sampleStore (VRef 0) 2 4))
         (VRef (fst (mergeLayers sampleStore (VRef 0) 2 4))) ''confidenceThreshold'' = VNum 0.5
    \<and> getProp (snd (mergeLayers sampleStore (VRef 0) 2 4))
         (VRef (fst (mergeLayers sampleStore (VRef 0) 2 4))) ''maxRetries'' = VNum 2
    \<and> getProp (snd (mergeLayers sampleStore (VRef 0) 2 4)) (VRef (length sampleStore))
         ''temperature'' = VNum 0
    \<and> getProp (snd (mergeLayers sampleStore (VRef 0) 2 4)) (VRef (length sampleStore))
         ''seed'' = VNum 7"
    by simp
  with sampleStore_wellFormed keys given unset cool seedless show ?thesis by blast
qed

section \<open>The check as a whole\<close>

text \<open>
  When the directory and the screenshot are made and the judge answers, the check is
  the decision on that answer, at the threshold of the check or else of the session.
\<close>

lemma vibeCheck_decides:
  assumes "ensureDir w (path_join h (orString (outputDir info) ''test-results'')
             ''vibe-screenshots'') = None"
      and "capture w (screenshotPathOf h w info options) = None"
      and "serviceEvaluateScreenshot call llmService (screenshotPathOf h w info options) spec
             (if truthyString (Option.bind options provider)
              then Option.bind options provider else Some (defaultProvider vibeConfig))
             (Some (evaluationOptions vibeConfig options)) = Inr result"
  shows "vibeCheck h w call llmService vibeConfig info spec options
         = assertThreshold h spec result
             (nullish options check_confidenceThreshold
                (session_confidenceThreshold (evaluation vibeConfig)))
             (screenshotPathOf h w info options)"
  using assms
  by (simp add: vibeCheck_def screenshotPathOf_def Let_def evaluationOptions_def)

text \<open>The loop outside the range of claim C3.\<close>

lemma unset_maxRetries_one_attempt:
  "maxRetries opts \<in> {Absent, Undefined, Value 0} \<Longrightarrow> attemptLimit opts = 1"
  by (auto simp: attemptLimit_def)

lemma negative_limit_no_attempt:
  "limit < 1 \<Longrightarrow>
   retryLoop pn internal limit 1 None tr
     = (Inl (Error (''Unknown error evaluating screenshot with '' @ pn)), tr)"
  by (subst retryLoop.simps) simp

subsection \<open>The match of the regular expression\<close>

text \<open>
  A match starts at the first opening brace of the text and ends at its last closing
  brace; there is none exactly when no closing brace follows an opening one.
\<close>

lemma jsonMatch_Some:
  assumes "jsonMatch content = Some m"
  shows "\<exists>pre post. content = pre @ m @ post \<and> CHR ''{'' \<notin> set pre \<and> CHR ''}'' \<notin> set post
           \<and> hd m = CHR ''{'' \<and> last m = CHR ''}'' \<and> m \<noteq> []"
proof -
  define pre where "pre = takeWhile (\<lambda>c. c \<noteq> CHR ''{'') content"
  define fromBrace where "fromBrace = dropWhile (\<lambda>c. c \<noteq> CHR ''{'') content"
  define post where "post = rev (takeWhile (\<lambda>c. c \<noteq> CHR ''}'') (rev fromBrace))"
  from assms have closing: "CHR ''}'' \<in> set fromBrace"
    and m: "m = rev (dropWhile (\<lambda>c. c \<noteq> CHR ''}'') (rev fromBrace))"
    by (auto simp: jsonMatch_def fromBrace_def Let_def split: if_splits)
  have split1: "content = pre @ fromBrace"
    by (simp add: pre_def fromBrace_def)
  have "fromBrace = rev (rev fromBrace)" by simp
  also have "\<dots> = rev (takeWhile (\<lambda>c. c \<noteq> CHR ''}'') (rev fromBrace)
      @ dropWhile (\<lambda>c. c \<noteq> CHR ''}'') (rev fromBrace))"
    by (simp only: takeWhile_dropWhile_id)
  also have "\<dots> = m @ post"
    by (simp only: rev_append m post_def)
  finally have split2: "fromBrace = m @ post" .
  have nopre: "CHR ''{'' \<notin> set pre"
    unfolding pre_def by (auto dest: set_takeWhileD)
  have nopost: "CHR ''}'' \<notin> set post"
    unfolding post_def by (auto dest: set_takeWhileD)
  have rest: "dropWhile (\<lambda>c. c \<noteq> CHR ''}'') (rev fromBrace) \<noteq> []"
    using closing by (simp add: dropWhile_eq_Nil_conv)
  then have ne: "m \<noteq> []" by (simp add: m)
  have "hd (dropWhile (\<lambda>c. c \<noteq> CHR ''}'') (rev fromBrace)) = CHR ''}''"
    using rest hd_dropWhile [of "\<lambda>c. c \<noteq> CHR ''}''" "rev fromBrace"] by simp
  then have lastm: "last m = CHR ''}''"
    using rest by (simp add: m last_rev)
  have "fromBrace \<noteq> []" using closing by auto
  then have "hd fromBrace = CHR ''{''"
    unfolding fromBrace_def using hd_dropWhile [of "\<lambda>c. c \<noteq> CHR ''{''" content] by simp
  then have hdm: "hd m = CHR ''{''"
    using split2 ne by simp
  from split1 split2 nopre nopost hdm lastm ne show ?thesis by auto
qed

lemma jsonMatch_None:
  "jsonMatch content = None \<longleftrightarrow> (\<nexists>pre mid post. content = pre @ ''{'' @ mid @ ''}'' @ post)"
proof
  assume none: "jsonMatch content = None"
  show "\<nexists>pre mid post. content = pre @ ''{'' @ mid @ ''}'' @ post"
  proof
    assume "\<exists>pre mid post. content = pre @ ''{'' @ mid @ ''}'' @ post"
    then obtain pre mid post where c: "content = pre @ ''{'' @ mid @ ''}'' @ post" by blast
    define p where "p = takeWhile (\<lambda>c. c \<noteq> CHR ''{'') pre"
    have "dropWhile (\<lambda>c. c \<noteq> CHR ''{'') content
        = dropWhile (\<lambda>c. c \<noteq> CHR ''{'') pre @ ''{'' @ mid @ ''}'' @ post
        \<or> dropWhile (\<lambda>c. c \<noteq> CHR ''{'') content = ''{'' @ mid @ ''}'' @ post"
      unfolding c by (cases "CHR ''{'' \<in> set pre") (simp_all add: dropWhile_append)
    then have "CHR ''}'' \<in> set (dropWhile (\<lambda>c. c \<noteq> CHR ''{'') content)" by auto
    with none show False by (simp add: jsonMatch_def Let_def)
  qed
next
  assume no: "\<nexists>pre mid post. content = pre @ ''{'' @ mid @ ''}'' @ post"
  show "jsonMatch content = None"
  proof (cases "jsonMatch content")
    case None
    then show ?thesis .
  next
    case (Some m)
    from jsonMatch_Some [OF Some] obtain pre post where
      c: "content = pre @ m @ post" and hd: "hd m = CHR ''{''" and last: "last m = CHR ''}''"
      and ne: "m \<noteq> []" by blast
    from ne hd obtain rest where m1: "m = CHR ''{'' # rest" by (cases m) auto
    with last have "rest \<noteq> []" by (cases rest) auto
    with m1 last obtain mid where "rest = mid @ ''}''"
      by (metis append_butlast_last_id last_ConsR)
    with m1 c have "content = pre @ ''{'' @ mid @ ''}'' @ post" by simp
    with no show ?thesis by blast
  qed
qed

end
